theory Spec2Isabelle
  imports Main "HOL-Library.List_Lexorder" "HOL-Library.Product_Lexorder"
begin

section \<open>Metro signage backends: departure parsers, poller, liveness and push channel\<close>

text \<open>
  The repository holds two backends. Structure A (\<^verbatim>\<open>metro_signage_structure_A/backend/main.py\<close>)
  polls the Golemio departure-board JSON feed; structure C
  (\<^verbatim>\<open>metro_signage_structure_C/backend/main.py\<close>) polls a GTFS-realtime protobuf feed.
  Both keep the latest batch in a module global and push it over a WebSocket.

  Modelling conventions.
  \<^item> A Python \<^verbatim>\<open>str\<close> is the list of its code points (\<open>pystr\<close>), so slicing, comparison and
    \<^verbatim>\<open>len\<close> count what Python counts. \<open>lit ''abc''\<close> is the str with the ASCII text \<open>abc\<close>.
  \<^item> An aware or naive \<^verbatim>\<open>datetime\<close> is its wall-clock reading in microseconds since
    1970-01-01T00:00:00 with an optional UTC offset; an instant in UTC is an \<open>int\<close> of
    microseconds.
  \<^item> A float that depends on a value of the feed is the double Python computes: the true
    division of two ints is the nearest double of the quotient, ties to even. Where both
    operands are readings of the host clock (\<^verbatim>\<open>_is_online\<close>, \<^verbatim>\<open>utcnow().timestamp()\<close>) the
    arithmetic is written on the integers, with which the doubles agree for clocks and
    intervals below \<open>2^33\<close> seconds.
  \<^item> Every exception Python raises on a path of the modelled code is a value \<open>Inl e\<close>.
  \<^item> Functions of the Python standard library and of third-party packages whose code is not
    part of the repository (\<^verbatim>\<open>datetime.fromisoformat\<close>, \<^verbatim>\<open>str()\<close> of a value that is not a str,
    the Unicode upper-casing of non-ASCII characters, protobuf decoding, the file system, HTTP)
    are parameters of the model.
\<close>

subsection \<open>Python strings\<close>

type_synonym pystr = "nat list"

definition lit :: "string \<Rightarrow> pystr" where
  "lit cs = map of_char cs"

text \<open>\<^verbatim>\<open>str.isspace\<close> for one character: the code points CPython lists as whitespace.\<close>

definition is_space :: "nat \<Rightarrow> bool" where
  "is_space c \<longleftrightarrow>
     (9 \<le> c \<and> c \<le> 13) \<or> (28 \<le> c \<and> c \<le> 32) \<or> c = 133 \<or> c = 160 \<or> c = 5760 \<or>
     (8192 \<le> c \<and> c \<le> 8202) \<or> c = 8232 \<or> c = 8233 \<or> c = 8239 \<or> c = 8287 \<or> c = 12288"

text \<open>\<^verbatim>\<open>s.strip()\<close>: drop leading and trailing whitespace.\<close>

definition str_strip :: "pystr \<Rightarrow> pystr" where
  "str_strip s = rev (dropWhile is_space (rev (dropWhile is_space s)))"

text \<open>
  \<^verbatim>\<open>s.upper()\<close> maps every character on its own. ASCII letters are shifted by 32, other ASCII
  characters stay; for a character from 128 on the result is what the Unicode tables say, a
  parameter here (\<open>upper_nonascii\<close>).
\<close>

definition upper_char :: "(nat \<Rightarrow> pystr) \<Rightarrow> nat \<Rightarrow> pystr" where
  "upper_char upper_nonascii c =
     (if 97 \<le> c \<and> c \<le> 122 then [c - 32]
      else if c < 128 then [c]
      else upper_nonascii c)"

definition str_upper :: "(nat \<Rightarrow> pystr) \<Rightarrow> pystr \<Rightarrow> pystr" where
  "str_upper upper_nonascii s = concat (map (upper_char upper_nonascii) s)"

text \<open>\<^verbatim>\<open>s.replace("Z", "+00:00")\<close>: every occurrence of the one-character pattern is replaced.\<close>

definition replace_Z :: "pystr \<Rightarrow> pystr" where
  "replace_Z s = concat (map (\<lambda>c. if c = 90 then lit ''+00:00'' else [c]) s)"

text \<open>The em dash U+2014, the placeholder destination of structure A.\<close>

definition em_dash :: pystr where
  "em_dash = [8212]"

subsection \<open>JSON values and the Python operations the parser applies to them\<close>

text \<open>
  What \<^verbatim>\<open>r.json()\<close> returns: \<^verbatim>\<open>None\<close>, a bool, a number, a str, a list or a dict. A dict is
  an association list with distinct keys, in insertion order. Of a number the code only uses
  its truth value and its \<^verbatim>\<open>str()\<close>, so a float is not told apart from an int.
\<close>

datatype json =
    JNull
  | JBool bool
  | JNum int
  | JStr pystr
  | JArr "json list"
  | JObj "(pystr \<times> json) list"

datatype py_error = AttributeError | TypeError | OverflowError

text \<open>Python's truth value of an object: \<^verbatim>\<open>bool(v)\<close>.\<close>

fun truthy :: "json \<Rightarrow> bool" where
  "truthy JNull = False"
| "truthy (JBool b) = b"
| "truthy (JNum n) = (n \<noteq> 0)"
| "truthy (JStr s) = (s \<noteq> [])"
| "truthy (JArr xs) = (xs \<noteq> [])"
| "truthy (JObj kvs) = (kvs \<noteq> [])"

text \<open>\<^verbatim>\<open>a or b\<close> on values already computed.\<close>

definition py_or :: "json \<Rightarrow> json \<Rightarrow> json" where
  "py_or a b = (if truthy a then a else b)"

text \<open>\<^verbatim>\<open>v.get(k, d)\<close>: only a dict has the method; on anything else Python raises AttributeError.\<close>

fun get_default :: "json \<Rightarrow> pystr \<Rightarrow> json \<Rightarrow> py_error + json" where
  "get_default (JObj kvs) k d = Inr (case map_of kvs k of None \<Rightarrow> d | Some v \<Rightarrow> v)"
| "get_default _ k d = Inl AttributeError"

text \<open>\<^verbatim>\<open>v.get(k)\<close>, the default being \<^verbatim>\<open>None\<close>.\<close>

definition get :: "json \<Rightarrow> pystr \<Rightarrow> py_error + json" where
  "get v k = get_default v k JNull"

text \<open>
  \<^verbatim>\<open>for dep in v\<close>: a list yields its elements, a dict its keys, a str its characters; a
  number or a bool is not iterable.
\<close>

fun iterate :: "json \<Rightarrow> py_error + json list" where
  "iterate (JArr xs) = Inr xs"
| "iterate (JObj kvs) = Inr (map (\<lambda>kv. JStr (fst kv)) kvs)"
| "iterate (JStr s) = Inr (map (\<lambda>c. JStr [c]) s)"
| "iterate _ = Inl TypeError"

subsection \<open>Datetimes and the library functions taken as parameters\<close>

record datetime =
  wall_us :: int
  utcoffset :: "int option"

text \<open>
  The library, as far as the code calls into it without the repository defining it:
  \<^item> \<open>fromisoformat s\<close> is \<^verbatim>\<open>datetime.fromisoformat(s)\<close>, \<open>None\<close> when it raises ValueError;
  \<^item> \<open>str_other v\<close> is \<^verbatim>\<open>str(v)\<close> for a value that is not a str;
  \<^item> \<open>upper_nonascii c\<close> is \<^verbatim>\<open>chr(c).upper()\<close> for \<open>c \<ge> 128\<close>.
\<close>

record pylib =
  fromisoformat :: "pystr \<Rightarrow> datetime option"
  str_other :: "json \<Rightarrow> pystr"
  upper_nonascii :: "nat \<Rightarrow> pystr"

text \<open>\<^verbatim>\<open>str(v)\<close>.\<close>

definition py_str :: "pylib \<Rightarrow> json \<Rightarrow> pystr" where
  "py_str L v = (case v of JStr s \<Rightarrow> s | _ \<Rightarrow> str_other L v)"

text \<open>\<^verbatim>\<open>datetime.min\<close> and \<^verbatim>\<open>datetime.max\<close> in microseconds since 1970.\<close>

definition datetime_min_us :: int where
  "datetime_min_us = - 62135596800000000"

definition datetime_max_us :: int where
  "datetime_max_us = 253402300799999999"

text \<open>
  \<^verbatim>\<open>d.astimezone(timezone.utc)\<close> for an aware \<open>d\<close>: a datetime whose tzinfo is already
  \<^verbatim>\<open>timezone.utc\<close> (offset zero) is returned as it is; otherwise the offset is subtracted,
  which raises OverflowError when the result leaves the range of \<^verbatim>\<open>datetime\<close>.
\<close>

definition astimezone_utc :: "int \<Rightarrow> int \<Rightarrow> py_error + int" where
  "astimezone_utc wall off =
     (if off = 0 then Inr wall
      else if wall - off < datetime_min_us \<or> datetime_max_us < wall - off then Inl OverflowError
      else Inr (wall - off))"

subsection \<open>Doubles\<close>

text \<open>
  A finite double is \<open>m * 2^e\<close> with \<open>m\<close> of at most 53 bits, here the pair \<open>(m, e)\<close>. The
  range of the exponent is not modelled: the quotients below are far inside it.
\<close>

type_synonym double = "int \<times> int"

text \<open>\<^verbatim>\<open>n.bit_length()\<close>.\<close>

fun bit_length :: "nat \<Rightarrow> nat" where
  "bit_length n = (if n = 0 then 0 else Suc (bit_length (n div 2)))"

declare bit_length.simps [simp del]

text \<open>The integer nearest to \<open>n / d\<close> for \<open>d > 0\<close>, a tie going to the even one.\<close>

definition round_half_even :: "int \<Rightarrow> int \<Rightarrow> int" where
  "round_half_even n d =
     (let q = n div d; r = n mod d
      in if 2 * r < d then q
         else if d < 2 * r then q + 1
         else if even q then q else q + 1)"

text \<open>
  \<^verbatim>\<open>n / d\<close> on ints with \<open>d > 0\<close>: the double nearest to the quotient. \<open>fl\<close> is the exponent
  of the leading bit of \<open>|n| / d\<close>, so that \<open>|n| / d\<close> scaled by \<open>2^(52 - fl)\<close> has 53 bits
  before the point, and is rounded there.
\<close>

definition true_divide :: "int \<Rightarrow> int \<Rightarrow> double" where
  "true_divide n d =
     (if n = 0 then (0, 0)
      else
        let a = \<bar>n\<bar>;
            k = int (bit_length (nat a)) - int (bit_length (nat d));
            fl = (if (if 0 \<le> k then d * 2 ^ nat k \<le> a else d \<le> a * 2 ^ nat (- k))
                  then k else k - 1);
            e = fl - 52;
            m = (if 0 \<le> e then round_half_even a (d * 2 ^ nat e)
                 else round_half_even (a * 2 ^ nat (- e)) d)
        in (sgn n * m, e))"

text \<open>
  \<^verbatim>\<open>x // c\<close> for a double \<open>x\<close> and an int \<open>c > 0\<close>, read as an int: the floor of the exact
  quotient of the double (the float floor division is exact on doubles below \<open>2^53\<close>).
\<close>

definition double_floordiv :: "double \<Rightarrow> int \<Rightarrow> int" where
  "double_floordiv x c =
     (case x of (m, e) \<Rightarrow>
        if 0 \<le> e then (m * 2 ^ nat e) div c else m div (c * 2 ^ nat (- e)))"

text \<open>\<^verbatim>\<open>int(x)\<close> for a double \<open>x\<close>: truncation towards zero.\<close>

definition double_to_int :: "double \<Rightarrow> int" where
  "double_to_int x =
     (case x of (m, e) \<Rightarrow>
        if 0 \<le> e then m * 2 ^ nat e
        else if 0 \<le> m then m div 2 ^ nat (- e)
        else - ((- m) div 2 ^ nat (- e)))"

text \<open>
  \<^verbatim>\<open>timedelta.total_seconds()\<close> of an interval of \<open>us\<close> microseconds: the true division of the
  microseconds by \<open>10^6\<close>.
\<close>

definition total_seconds :: "int \<Rightarrow> double" where
  "total_seconds us = true_divide us 1000000"

subsection \<open>Structure A: the JSON parser\<close>

text \<open>
  \<^verbatim>\<open>_parse_iso(s)\<close>. The argument is whatever \<^verbatim>\<open>ts.get(...)\<close> returned. A falsy argument gives
  \<^verbatim>\<open>None\<close>; a truthy argument that is not a str has no \<^verbatim>\<open>replace\<close>; ValueError from
  \<^verbatim>\<open>fromisoformat\<close> is caught; a naive result is stamped UTC. The result is the instant in UTC.
\<close>

definition parse_iso :: "pylib \<Rightarrow> json \<Rightarrow> py_error + int option" where
  "parse_iso L s =
     (if \<not> truthy s then Inr None
      else case s of
        JStr t \<Rightarrow>
          (case fromisoformat L (replace_Z t) of
             None \<Rightarrow> Inr None
           | Some d \<Rightarrow>
               (case utcoffset d of
                  None \<Rightarrow> Inr (Some (wall_us d))
                | Some off \<Rightarrow>
                    (case astimezone_utc (wall_us d) off of
                       Inl e \<Rightarrow> Inl e
                     | Inr u \<Rightarrow> Inr (Some u))))
      | _ \<Rightarrow> Inl AttributeError)"

text \<open>
  \<^verbatim>\<open>_minutes_until(ts_utc, now_utc)\<close>; a datetime is always truthy. The value is
  \<^verbatim>\<open>max(0, int((ts_utc - now_utc).total_seconds() // 60))\<close>: the interval goes through the
  double \<^verbatim>\<open>total_seconds()\<close> returns before the floor division by 60.
\<close>

definition minutes_until :: "int option \<Rightarrow> int \<Rightarrow> int option" where
  "minutes_until ts_utc now_utc =
     (case ts_utc of
        None \<Rightarrow> None
      | Some t \<Rightarrow> Some (max 0 (double_floordiv (total_seconds (t - now_utc)) 60)))"

text \<open>
  A departure record, the dict the parsers append. \<open>t_utc\<close> is the key \<^verbatim>\<open>"t_utc"\<close>, absent
  (\<open>None\<close>) in the records of structure C; its value stands for the \<^verbatim>\<open>isoformat()\<close> text of
  the instant.
\<close>

record departure =
  line :: pystr
  dest :: pystr
  in_min :: int
  t_utc :: "int option"

text \<open>Sequencing of steps that may raise: the first exception ends the computation.\<close>

definition and_then :: "py_error + 'a \<Rightarrow> ('a \<Rightarrow> py_error + 'b) \<Rightarrow> py_error + 'b" where
  "and_then r f = (case r of Inl e \<Rightarrow> Inl e | Inr x \<Rightarrow> f x)"

text \<open>
  \<^verbatim>\<open>trip.get("headsign") or last_stop.get("name") or EM_DASH\<close>, evaluated left to right:
  \<^verbatim>\<open>last_stop.get\<close> is only called when the headsign is falsy.
\<close>

definition dest_value :: "json \<Rightarrow> json \<Rightarrow> py_error + json" where
  "dest_value trip last_stop =
     and_then (get trip (lit ''headsign'')) (\<lambda>hs.
       if truthy hs then Inr hs
       else and_then (get last_stop (lit ''name'')) (\<lambda>nm. Inr (py_or nm (JStr em_dash))))"

text \<open>
  The three lines that parse \<^verbatim>\<open>ts.get("predicted")\<close>, then \<^verbatim>\<open>ts.get("scheduled")\<close>, and
  take \<^verbatim>\<open>used = predicted or scheduled\<close>. Both fields are parsed before one is chosen.
\<close>

definition entry_timestamp :: "pylib \<Rightarrow> json \<Rightarrow> py_error + int option" where
  "entry_timestamp L ts =
     and_then (get ts (lit ''predicted'')) (\<lambda>p.
     and_then (parse_iso L p) (\<lambda>predicted.
     and_then (get ts (lit ''scheduled'')) (\<lambda>s.
     and_then (parse_iso L s) (\<lambda>scheduled.
       Inr (case predicted of Some t \<Rightarrow> Some t | None \<Rightarrow> scheduled)))))"

text \<open>
  The body of the loop of \<^verbatim>\<open>normalize_departureboards\<close> for one entry \<open>dep\<close>; \<open>metro_line\<close>
  is already stripped and upper-cased. \<open>Inr None\<close> is \<^verbatim>\<open>continue\<close>, \<open>Inr (Some r)\<close> is
  \<^verbatim>\<open>out.append(r)\<close>, \<open>Inl e\<close> is an exception leaving the function.
\<close>

definition normalize_entry :: "pylib \<Rightarrow> pystr \<Rightarrow> int \<Rightarrow> json \<Rightarrow> py_error + departure option" where
  "normalize_entry L metro_line now dep =
     and_then (get dep (lit ''route'')) (\<lambda>r0.
     and_then (get dep (lit ''trip'')) (\<lambda>t0.
     and_then (get dep (lit ''last_stop'')) (\<lambda>l0.
     and_then (get dep (lit ''departure_timestamp'')) (\<lambda>d0.
     let route = py_or r0 (JObj []);
         trip = py_or t0 (JObj []);
         last_stop = py_or l0 (JObj []);
         ts = py_or d0 (JObj [])
     in
     and_then (get route (lit ''short_name'')) (\<lambda>sn.
     if str_upper (upper_nonascii L) (str_strip (py_str L (py_or sn (JStr [])))) \<noteq> metro_line
     then Inr None
     else
       and_then (dest_value trip last_stop) (\<lambda>d.
       let stripped = str_strip (py_str L d);
           dest = (if stripped \<noteq> [] then stripped else em_dash)
       in
       and_then (entry_timestamp L ts) (\<lambda>used.
       case minutes_until used now of
         None \<Rightarrow> Inr None
       | Some m \<Rightarrow>
           Inr (Some \<lparr>line = metro_line, dest = dest, in_min = m, t_utc = used\<rparr>))))))))"

text \<open>The \<^verbatim>\<open>for\<close> loop: entries in order, the appended records in order.\<close>

fun normalize_loop :: "pylib \<Rightarrow> pystr \<Rightarrow> int \<Rightarrow> json list \<Rightarrow> py_error + departure list" where
  "normalize_loop L metro_line now [] = Inr []"
| "normalize_loop L metro_line now (dep # deps) =
     and_then (normalize_entry L metro_line now dep) (\<lambda>r.
     and_then (normalize_loop L metro_line now deps) (\<lambda>out.
       Inr (case r of None \<Rightarrow> out | Some x \<Rightarrow> x # out)))"

text \<open>
  \<^verbatim>\<open>normalize_departureboards(payload, metro_line=...)\<close>; \<open>now\<close> is the one reading of
  \<^verbatim>\<open>_utc_now()\<close> taken before the loop. \<^verbatim>\<open>list.sort\<close> is stable, as \<open>sort_key\<close> is.
\<close>

definition normalize_departureboards ::
    "pylib \<Rightarrow> int \<Rightarrow> json \<Rightarrow> pystr \<Rightarrow> py_error + departure list" where
  "normalize_departureboards L now payload metro_line =
     (let metro_line = str_upper (upper_nonascii L) (str_strip metro_line) in
      and_then (get_default payload (lit ''departures'') (JArr [])) (\<lambda>d0.
      and_then (iterate (py_or d0 (JArr []))) (\<lambda>deps.
      and_then (normalize_loop L metro_line now deps) (\<lambda>out.
        Inr (sort_key (\<lambda>x. (in_min x, dest x)) out)))))"

subsection \<open>Structure A: fetch, poller, liveness, push channel\<close>

definition METRO_LINE :: pystr where
  "METRO_LINE = lit ''A''"

text \<open>The settings read from the environment that the modelled code uses.\<close>

record settings =
  API_KEY :: pystr
  OFFLINE_AFTER_SECONDS :: int

text \<open>
  What the three calls on the HTTP client do in one fetch: \<^verbatim>\<open>client.get\<close> raises,
  \<^verbatim>\<open>r.raise_for_status()\<close> raises, \<^verbatim>\<open>r.json()\<close> raises, or the payload is there.
\<close>

datatype upstream = GetRaised | StatusRaised | JsonRaised | Payload json

text \<open>
  \<^verbatim>\<open>fetch_golemio_departures(client)\<close>: \<^verbatim>\<open>None\<close> without a key and on every exception,
  those of \<^verbatim>\<open>normalize_departureboards\<close> included.
\<close>

definition fetch_golemio_departures ::
    "pylib \<Rightarrow> settings \<Rightarrow> int \<Rightarrow> upstream \<Rightarrow> departure list option" where
  "fetch_golemio_departures L cfg now up =
     (if API_KEY cfg = [] then None
      else case up of
        Payload payload \<Rightarrow>
          (case normalize_departureboards L now payload METRO_LINE of
             Inl e \<Rightarrow> None
           | Inr out \<Rightarrow> Some out)
      | _ \<Rightarrow> None)"

text \<open>
  The module globals the poller writes. Structure C has \<^verbatim>\<open>LATEST_DEPARTURES\<close> only: its
  poller is a transformer of the same store that never touches \<open>LAST_OK_UTC\<close>.
\<close>

record store =
  LATEST_DEPARTURES :: "departure list"
  LAST_OK_UTC :: "int option"

definition initial_store :: store where
  "initial_store = \<lparr>LATEST_DEPARTURES = [], LAST_OK_UTC = None\<rparr>"

text \<open>
  \<^verbatim>\<open>_is_online()\<close>, whose own reading of \<^verbatim>\<open>_utc_now()\<close> is \<open>now\<close>. Both instants are readings
  of the host clock; the comparison of \<^verbatim>\<open>total_seconds()\<close> with the threshold is written on
  the microseconds.
\<close>

definition is_online :: "settings \<Rightarrow> int \<Rightarrow> store \<Rightarrow> bool" where
  "is_online cfg now st =
     (case LAST_OK_UTC st of
        None \<Rightarrow> False
      | Some t \<Rightarrow> now - t \<le> OFFLINE_AFTER_SECONDS cfg * 1000000)"

text \<open>
  What one pass of the \<^verbatim>\<open>while True\<close> of \<^verbatim>\<open>poller_loop\<close> meets: the upstream's answer, the
  clock reading inside \<^verbatim>\<open>normalize_departureboards\<close> and the later reading stored in
  \<^verbatim>\<open>LAST_OK_UTC\<close>.
\<close>

record cycle =
  answer :: upstream
  now_parse :: int
  now_store :: int

definition poller_cycle :: "pylib \<Rightarrow> settings \<Rightarrow> cycle \<Rightarrow> store \<Rightarrow> store" where
  "poller_cycle L cfg c st =
     (case fetch_golemio_departures L cfg (now_parse c) (answer c) of
        None \<Rightarrow> st
      | Some deps \<Rightarrow> st\<lparr>LATEST_DEPARTURES := deps, LAST_OK_UTC := Some (now_store c)\<rparr>)"

text \<open>\<^verbatim>\<open>poller_loop\<close> never returns; this is the store after a finite number of passes.\<close>

fun poller_loop :: "pylib \<Rightarrow> settings \<Rightarrow> cycle list \<Rightarrow> store \<Rightarrow> store" where
  "poller_loop L cfg [] st = st"
| "poller_loop L cfg (c # cs) st = poller_loop L cfg cs (poller_cycle L cfg c st)"

text \<open>
  A message of the push channel, the dict given to \<^verbatim>\<open>send_json\<close>: keys in order, each with
  its value. An instant stands for its \<^verbatim>\<open>isoformat()\<close> text.
\<close>

datatype field = Instant int | Departures "departure list" | Flag bool

type_synonym message = "(pystr \<times> field) list"

text \<open>
  One pass of the loop of \<^verbatim>\<open>ws_updates\<close>. The pass reads the clock twice: \<open>now\<close> is the
  reading at the top of the pass, sent as \<open>t\<close> (and as \<open>t_utc\<close> of the placeholder);
  \<open>now_online\<close> is the later reading \<^verbatim>\<open>_is_online()\<close> takes while the message is built.
\<close>

definition ws_updates :: "settings \<Rightarrow> int \<Rightarrow> int \<Rightarrow> store \<Rightarrow> message" where
  "ws_updates cfg now now_online st =
     (let departures = (if LATEST_DEPARTURES st \<noteq> [] then take 20 (LATEST_DEPARTURES st) else []);
          departures =
            (if departures = []
             then [\<lparr>line = METRO_LINE, dest = em_dash, in_min = 0, t_utc = Some now\<rparr>]
             else departures)
      in [(lit ''t'', Instant now),
          (lit ''departures'', Departures departures),
          (lit ''online'', Flag (is_online cfg now_online st))])"

subsection \<open>Structure C: the GTFS-realtime parser\<close>

text \<open>
  The decoded protobuf message, as far as the code reads it.
  \<^item> \<open>arrival\<close> is \<open>Some t\<close> when \<^verbatim>\<open>stu.HasField("arrival")\<close>, with \<open>t\<close> the value of
    \<^verbatim>\<open>stu.arrival.time\<close> (0 when the arrival has no time: the protobuf default).
  \<^item> \<open>route_id\<close> is \<^verbatim>\<open>tu.trip.route_id\<close>, empty when unset.
  \<^item> \<open>trip_headsign\<close> is \<^verbatim>\<open>getattr(tu.trip, "trip_headsign", None)\<close>.
  \<^item> \<open>trip_update\<close> is \<open>Some tu\<close> when \<^verbatim>\<open>entity.HasField("trip_update")\<close>.
\<close>

record stop_time_update =
  arrival :: "int option"

record trip_update =
  route_id :: pystr
  trip_headsign :: "pystr option"
  stop_time_updates :: "stop_time_update list"

record feed_entity =
  trip_update :: "trip_update option"

type_synonym bytes = "nat list"

text \<open>
  \<^verbatim>\<open>int(x / 60)\<close> on an int \<open>x\<close>: the true division gives a double, which \<^verbatim>\<open>int\<close> truncates
  towards zero.
\<close>

definition int_div60 :: "int \<Rightarrow> int" where
  "int_div60 x = double_to_int (true_divide x 60)"

text \<open>
  The inner \<^verbatim>\<open>for stu in tu.stop_time_update\<close> with its \<^verbatim>\<open>break\<close>: the time of the first
  update that has an arrival whose time is truthy.
\<close>

fun first_arrival :: "stop_time_update list \<Rightarrow> int option" where
  "first_arrival [] = None"
| "first_arrival (stu # stus) =
     (case arrival stu of
        Some t \<Rightarrow> (if t \<noteq> 0 then Some t else first_arrival stus)
      | None \<Rightarrow> first_arrival stus)"

text \<open>The body of \<^verbatim>\<open>for entity in feed.entity\<close>: the record appended for one entity, if any.\<close>

definition entity_departure :: "int \<Rightarrow> feed_entity \<Rightarrow> departure option" where
  "entity_departure now entity =
     (case trip_update entity of
        None \<Rightarrow> None
      | Some tu \<Rightarrow>
          (let rid = take 10 (route_id tu) in
           case first_arrival (stop_time_updates tu) of
             None \<Rightarrow> None
           | Some arrival_ts \<Rightarrow>
               Some \<lparr>line = (if rid \<noteq> [] then rid else lit ''?''),
                     dest = (case trip_headsign tu of
                               Some h \<Rightarrow> (if h \<noteq> [] then h
                                          else if rid \<noteq> [] then rid else lit ''?'')
                             | None \<Rightarrow> (if rid \<noteq> [] then rid else lit ''?'')),
                     in_min = max 0 (int_div60 (arrival_ts - now)),
                     t_utc = None\<rparr>))"

text \<open>
  The part of \<^verbatim>\<open>fetch_gtfs_rt\<close> after \<^verbatim>\<open>ParseFromString\<close>: the loop over the entities, the
  stable sort on \<^verbatim>\<open>in_min\<close> alone and the cut at 50.
\<close>

definition gtfs_departures :: "int \<Rightarrow> feed_entity list \<Rightarrow> departure list" where
  "gtfs_departures now feed =
     take 50 (sort_key in_min (List.map_filter (entity_departure now) feed))"

text \<open>
  What \<^verbatim>\<open>fetch_gtfs_rt\<close> meets outside the repository: the file system, the HTTP client
  (\<open>None\<close> when \<^verbatim>\<open>open\<close>/\<^verbatim>\<open>read\<close>, \<^verbatim>\<open>client.get\<close> or \<^verbatim>\<open>raise_for_status\<close> raise), the protobuf
  decoder (\<open>None\<close> when it raises) and the host clock: the instant in UTC at which
  \<^verbatim>\<open>utcnow()\<close> is called, in microseconds, and the offset from UTC, in seconds, that the time
  zone of the host gives to a local time.
\<close>

record gtfs_env =
  expanduser :: "pystr \<Rightarrow> pystr"
  path_exists :: "pystr \<Rightarrow> bool"
  read_file :: "pystr \<Rightarrow> bytes option"
  http_get :: "pystr \<Rightarrow> bytes option"
  ParseFromString :: "bytes \<Rightarrow> feed_entity list option"
  utc_clock_us :: int
  local_utcoffset_s :: int

text \<open>
  \<^verbatim>\<open>now_ts = int(datetime.datetime.utcnow().timestamp())\<close>. \<^verbatim>\<open>utcnow()\<close> returns the date
  and time in UTC as a naive datetime, and \<^verbatim>\<open>timestamp()\<close> of a naive datetime takes it for a local
  time of the host: the seconds since 1970 that it returns are those of the reading moved
  back by the offset of the host's zone. \<^verbatim>\<open>int\<close> truncates towards zero.
\<close>

definition now_ts :: "gtfs_env \<Rightarrow> int" where
  "now_ts E =
     (let w = utc_clock_us E - local_utcoffset_s E * 1000000
      in if 0 \<le> w then w div 1000000 else - ((- w) div 1000000))"

text \<open>\<^verbatim>\<open>s.startswith(p)\<close>.\<close>

definition startswith :: "pystr \<Rightarrow> pystr \<Rightarrow> bool" where
  "startswith s p \<longleftrightarrow> take (length p) s = p"

text \<open>
  \<^verbatim>\<open>s.lower()\<close> on the ASCII letters. The result is only tested for the prefixes
  \<^verbatim>\<open>http://\<close> and \<^verbatim>\<open>https://\<close>, whose characters no non-ASCII character lowers to.
\<close>

definition str_lower :: "pystr \<Rightarrow> pystr" where
  "str_lower s = map (\<lambda>c. if 65 \<le> c \<and> c \<le> 90 then c + 32 else c) s"

text \<open>The bytes \<^verbatim>\<open>fetch_gtfs_rt\<close> reads for a non-empty locator, \<open>None\<close> on each failure.\<close>

definition gtfs_content :: "gtfs_env \<Rightarrow> pystr \<Rightarrow> bytes option" where
  "gtfs_content E url =
     (if startswith url (lit ''file://'') then
        (let path = expanduser E (drop 7 url) in
         if \<not> path_exists E path then None else read_file E path)
      else if startswith (str_lower url) (lit ''http://'') \<or>
              startswith (str_lower url) (lit ''https://'') then http_get E url
      else
        (let path = expanduser E url in
         if path_exists E path then read_file E path else None))"

text \<open>
  \<^verbatim>\<open>fetch_gtfs_rt(url)\<close>; the locator is \<^verbatim>\<open>os.getenv("GTFS_RT_URL")\<close>, \<^verbatim>\<open>None\<close> when the
  variable is not set.
\<close>

definition fetch_gtfs_rt :: "gtfs_env \<Rightarrow> pystr option \<Rightarrow> departure list option" where
  "fetch_gtfs_rt E url =
     (case url of
        None \<Rightarrow> None
      | Some u \<Rightarrow>
          (if u = [] then None
           else case gtfs_content E u of
             None \<Rightarrow> None
           | Some content \<Rightarrow>
               (case ParseFromString E content of
                  None \<Rightarrow> None
                | Some feed \<Rightarrow> Some (gtfs_departures (now_ts E) feed))))"

subsection \<open>Structure C: poller and push channel\<close>

text \<open>One pass of the \<^verbatim>\<open>while True\<close> of \<^verbatim>\<open>gtfs_poller_loop\<close>.\<close>

definition gtfs_poller_cycle :: "pystr option \<Rightarrow> gtfs_env \<Rightarrow> store \<Rightarrow> store" where
  "gtfs_poller_cycle GTFS_URL E st =
     (case fetch_gtfs_rt E GTFS_URL of
        None \<Rightarrow> st
      | Some deps \<Rightarrow> st\<lparr>LATEST_DEPARTURES := deps\<rparr>)"

text \<open>
  \<^verbatim>\<open>gtfs_poller_loop\<close> after a finite number of passes; without a locator it returns at once.
\<close>

fun gtfs_passes :: "pystr option \<Rightarrow> gtfs_env list \<Rightarrow> store \<Rightarrow> store" where
  "gtfs_passes GTFS_URL [] st = st"
| "gtfs_passes GTFS_URL (E # Es) st = gtfs_passes GTFS_URL Es (gtfs_poller_cycle GTFS_URL E st)"

definition gtfs_poller_loop :: "pystr option \<Rightarrow> gtfs_env list \<Rightarrow> store \<Rightarrow> store" where
  "gtfs_poller_loop GTFS_URL Es st =
     (case GTFS_URL of
        None \<Rightarrow> st
      | Some u \<Rightarrow> (if u = [] then st else gtfs_passes GTFS_URL Es st))"

text \<open>
  \<^verbatim>\<open>base_lines\<close> of \<^verbatim>\<open>websocket_endpoint\<close>: line and destination of the simulated feed
  (\<open>Hrad\<close>\<^verbatim>\<open>U+010D\<close>\<open>ansk\<close>\<^verbatim>\<open>U+00E1\<close> and \<open>Hloub\<close>\<^verbatim>\<open>U+011B\<close>\<open>t\<close>\<^verbatim>\<open>U+00ED\<close>\<open>n\<close>).
\<close>

definition base_lines :: "(pystr \<times> pystr) list" where
  "base_lines =
     [(lit ''A'', lit ''Muzeum''),
      (lit ''B'', lit ''Florenc''),
      (lit ''C'', lit ''Hrad'' @ [269] @ lit ''ansk'' @ [225]),
      (lit ''D'', lit ''Hloub'' @ [283] @ lit ''t'' @ [237] @ lit ''n'')]"

text \<open>
  The simulated feed: the \<open>i\<close>-th entry of \<^verbatim>\<open>base_lines\<close> with the \<open>i\<close>-th value
  \<^verbatim>\<open>random.randint(1, 12)\<close> returns in this pass.
\<close>

definition simulated :: "(nat \<Rightarrow> int) \<Rightarrow> departure list" where
  "simulated randint =
     map (\<lambda>i. \<lparr>line = fst (base_lines ! i), dest = snd (base_lines ! i),
               in_min = randint i, t_utc = None\<rparr>) [0..<length base_lines]"

text \<open>One pass of the loop of \<^verbatim>\<open>websocket_endpoint\<close>: the payload sent at the instant \<open>now\<close>.\<close>

definition websocket_endpoint :: "(nat \<Rightarrow> int) \<Rightarrow> int \<Rightarrow> store \<Rightarrow> message" where
  "websocket_endpoint randint now st =
     (let departures =
            (if LATEST_DEPARTURES st \<noteq> [] then take 20 (LATEST_DEPARTURES st)
             else simulated randint)
      in [(lit ''t'', Instant now), (lit ''departures'', Departures departures)])"

subsection \<open>Notions of the specification, and concrete inputs\<close>

text \<open>
  A pass of the poller of structure A succeeded when its fetch returned a batch; the
  last-success instant of a run is the instant stored by the latest pass that succeeded,
  unknown (\<open>None\<close>) when none did.
\<close>

definition succeeded :: "pylib \<Rightarrow> settings \<Rightarrow> cycle \<Rightarrow> bool" where
  "succeeded L cfg c \<longleftrightarrow> fetch_golemio_departures L cfg (now_parse c) (answer c) \<noteq> None"

fun last_success :: "pylib \<Rightarrow> settings \<Rightarrow> cycle list \<Rightarrow> int option" where
  "last_success L cfg [] = None"
| "last_success L cfg (c # cs) =
     (case last_success L cfg cs of
        Some t \<Rightarrow> Some t
      | None \<Rightarrow> (if succeeded L cfg c then Some (now_store c) else None))"

text \<open>The departures list of a pushed message, and the keys of the message in order.\<close>

definition pushed :: "message \<Rightarrow> departure list" where
  "pushed m = (case map_of m (lit ''departures'') of Some (Departures ds) \<Rightarrow> ds | _ \<Rightarrow> [])"

definition keys :: "message \<Rightarrow> pystr list" where
  "keys m = map fst m"

text \<open>
  A library instance for the concrete evaluations below. It answers as CPython does on the
  values those evaluations reach: \<^verbatim>\<open>fromisoformat\<close> on 10:00 with the offset zero, on 11:00
  with the offset of one hour, on a naive 10:05, on the first instant of \<^verbatim>\<open>datetime\<close> with
  the offset of one hour, and on any other text, taken as malformed; no \<^verbatim>\<open>str()\<close> of a
  non-str and no non-ASCII upper-casing is reached.
\<close>

definition example_lib :: pylib where
  "example_lib =
     \<lparr>fromisoformat =
        (\<lambda>s. if s = lit ''2030-01-01T10:00:00+00:00''
             then Some \<lparr>wall_us = 1893492000000000, utcoffset = Some 0\<rparr>
             else if s = lit ''2030-01-01T11:00:00+01:00''
             then Some \<lparr>wall_us = 1893495600000000, utcoffset = Some 3600000000\<rparr>
             else if s = lit ''2030-01-01T10:05:00''
             then Some \<lparr>wall_us = 1893492300000000, utcoffset = None\<rparr>
             else if s = lit ''0001-01-01T00:00:00+01:00''
             then Some \<lparr>wall_us = - 62135596800000000, utcoffset = Some 3600000000\<rparr>
             else None),
      str_other = (\<lambda>v. []),
      upper_nonascii = (\<lambda>c. [c])\<rparr>"

definition example_settings :: settings where
  "example_settings = \<lparr>API_KEY = lit ''key'', OFFLINE_AFTER_SECONDS = 60\<rparr>"

text \<open>A pass that fetches a payload without entries, and a pass whose response is an error status.\<close>

definition cycle_empty_batch :: cycle where
  "cycle_empty_batch = \<lparr>answer = Payload (JObj []), now_parse = 0, now_store = 5\<rparr>"

definition cycle_failed :: cycle where
  "cycle_failed = \<lparr>answer = StatusRaised, now_parse = 0, now_store = 5\<rparr>"

text \<open>
  The feed \<^verbatim>\<open>mock_feed.py\<close> of structure C writes: one entity, route \<open>X\<close>, one stop-time
  update arriving 120 seconds after the clock reading 0. The environment finds it as a local
  file.
\<close>

definition mock_feed :: "feed_entity list" where
  "mock_feed =
     [\<lparr>trip_update = Some \<lparr>route_id = lit ''X'', trip_headsign = None,
                            stop_time_updates = [\<lparr>arrival = Some 120\<rparr>]\<rparr>\<rparr>]"

definition mock_env :: gtfs_env where
  "mock_env =
     \<lparr>expanduser = (\<lambda>p. p), path_exists = (\<lambda>p. True), read_file = (\<lambda>p. Some []),
      http_get = (\<lambda>u. None), ParseFromString = (\<lambda>b. Some mock_feed),
      utc_clock_us = 0, local_utcoffset_s = 0\<rparr>"

definition broken_env :: gtfs_env where
  "broken_env =
     \<lparr>expanduser = (\<lambda>p. p), path_exists = (\<lambda>p. True), read_file = (\<lambda>p. Some []),
      http_get = (\<lambda>u. None), ParseFromString = (\<lambda>b. None),
      utc_clock_us = 0, local_utcoffset_s = 0\<rparr>"

definition mock_url :: "pystr option" where
  "mock_url = Some (lit ''/tmp/feed.pb'')"

text \<open>
  A payload whose only entry is of line B, and the pass of the poller that fetches it.
\<close>

definition payload_line_B :: json where
  "payload_line_B =
     JObj [(lit ''departures'', JArr
       [JObj [(lit ''route'', JObj [(lit ''short_name'', JStr (lit ''B''))]),
              (lit ''trip'', JObj [(lit ''headsign'', JStr (lit ''Florenc''))]),
              (lit ''departure_timestamp'',
                 JObj [(lit ''scheduled'', JStr (lit ''2030-01-01T10:00:00Z''))])]])]"

definition cycle_line_B :: cycle where
  "cycle_line_B = \<lparr>answer = Payload payload_line_B, now_parse = 1893491000000000,
                    now_store = 1893491000200000\<rparr>"

text \<open>A store holding one departure, fetched at the instant 5.\<close>

definition store_one :: store where
  "store_one =
     \<lparr>LATEST_DEPARTURES = [\<lparr>line = lit ''A'', dest = lit ''Skalka'', in_min = 3, t_utc = Some 200000000\<rparr>],
      LAST_OK_UTC = Some 5\<rparr>"


definition feed_no_route :: "feed_entity list" where
  "feed_no_route =
     [\<lparr>trip_update = Some \<lparr>route_id = [], trip_headsign = None,
                            stop_time_updates = [\<lparr>arrival = Some 120\<rparr>]\<rparr>\<rparr>]"

definition trip_three_stops :: trip_update where
  "trip_three_stops =
     \<lparr>route_id = lit ''LINE-0123456789'', trip_headsign = Some (lit ''Depo''),
      stop_time_updates = [\<lparr>arrival = None\<rparr>, \<lparr>arrival = Some 0\<rparr>, \<lparr>arrival = Some 600\<rparr>,
                           \<lparr>arrival = Some 60\<rparr>]\<rparr>"

text \<open>
  Payloads for the parser of structure A, parsed at 2030-01-01T09:43:20 UTC. The board has,
  in this order: an entry of line \<open>a\<close> written with surrounding blanks, with a naive predicted
  time 10:05 and a scheduled time 10:00; an entry without headsign whose predicted time is
  malformed and whose scheduled time is 10:00; an entry whose two times are malformed; an
  entry of line B; an entry at 10:00 for a destination that sorts first.
\<close>

definition board_now :: int where
  "board_now = 1893491000000000"

definition entry_padded :: json where
  "entry_padded =
     JObj [(lit ''route'', JObj [(lit ''short_name'', JStr (lit '' a ''))]),
           (lit ''trip'', JObj [(lit ''headsign'', JStr (lit ''Skalka''))]),
           (lit ''departure_timestamp'',
              JObj [(lit ''predicted'', JStr (lit ''2030-01-01T10:05:00'')),
                    (lit ''scheduled'', JStr (lit ''2030-01-01T10:00:00Z''))])]"

definition entry_last_stop :: json where
  "entry_last_stop =
     JObj [(lit ''route'', JObj [(lit ''short_name'', JStr (lit ''A''))]),
           (lit ''last_stop'', JObj [(lit ''name'', JStr (lit ''Depo''))]),
           (lit ''departure_timestamp'',
              JObj [(lit ''predicted'', JStr (lit ''soon'')),
                    (lit ''scheduled'', JStr (lit ''2030-01-01T10:00:00Z''))])]"

definition entry_no_time :: json where
  "entry_no_time =
     JObj [(lit ''route'', JObj [(lit ''short_name'', JStr (lit ''A''))]),
           (lit ''trip'', JObj [(lit ''headsign'', JStr (lit ''Motol''))]),
           (lit ''departure_timestamp'',
              JObj [(lit ''predicted'', JStr (lit ''soon'')),
                    (lit ''scheduled'', JStr (lit ''later''))])]"

definition entry_line_B :: json where
  "entry_line_B =
     JObj [(lit ''route'', JObj [(lit ''short_name'', JStr (lit ''B''))]),
           (lit ''trip'', JObj [(lit ''headsign'', JStr (lit ''Florenc''))]),
           (lit ''departure_timestamp'',
              JObj [(lit ''scheduled'', JStr (lit ''2030-01-01T10:00:00Z''))])]"

definition entry_tie :: json where
  "entry_tie =
     JObj [(lit ''route'', JObj [(lit ''short_name'', JStr (lit ''A''))]),
           (lit ''trip'', JObj [(lit ''headsign'', JStr (lit ''Cerny Most''))]),
           (lit ''departure_timestamp'',
              JObj [(lit ''scheduled'', JStr (lit ''2030-01-01T10:00:00Z''))])]"

definition board :: json where
  "board = JObj [(lit ''departures'',
     JArr [entry_padded, entry_last_stop, entry_no_time, entry_line_B, entry_tie])]"

text \<open>The three records the board gives, in the order of the output.\<close>

definition record_tie :: departure where
  "record_tie = \<lparr>line = lit ''A'', dest = lit ''Cerny Most'', in_min = 16,
                  t_utc = Some 1893492000000000\<rparr>"

definition record_last_stop :: departure where
  "record_last_stop = \<lparr>line = lit ''A'', dest = lit ''Depo'', in_min = 16,
                        t_utc = Some 1893492000000000\<rparr>"

definition record_padded :: departure where
  "record_padded = \<lparr>line = lit ''A'', dest = lit ''Skalka'', in_min = 21,
                     t_utc = Some 1893492300000000\<rparr>"

text \<open>
  The same feed written at 2030-01-01T09:43:20 UTC, its arrival 120 seconds later, and read
  at that instant on a host whose zone is UTC and on a host in Prague, one hour east.
\<close>

definition trip_in_two_minutes :: trip_update where
  "trip_in_two_minutes =
     \<lparr>route_id = lit ''X'', trip_headsign = None,
      stop_time_updates = [\<lparr>arrival = Some 1893491120\<rparr>]\<rparr>"

definition feed_in_two_minutes :: "feed_entity list" where
  "feed_in_two_minutes = [\<lparr>trip_update = Some trip_in_two_minutes\<rparr>]"

definition utc_host :: gtfs_env where
  "utc_host =
     \<lparr>expanduser = (\<lambda>p. p), path_exists = (\<lambda>p. True), read_file = (\<lambda>p. Some []),
      http_get = (\<lambda>u. None), ParseFromString = (\<lambda>b. Some feed_in_two_minutes),
      utc_clock_us = 1893491000000000, local_utcoffset_s = 0\<rparr>"

definition prague_host :: gtfs_env where
  "prague_host =
     \<lparr>expanduser = (\<lambda>p. p), path_exists = (\<lambda>p. True), read_file = (\<lambda>p. Some []),
      http_get = (\<lambda>u. None), ParseFromString = (\<lambda>b. Some feed_in_two_minutes),
      utc_clock_us = 1893491000000000, local_utcoffset_s = 3600\<rparr>"

text \<open>
  A board of two entries of line A. The first is the entry above that gives a record; the
  second has a predicted time 10:05 and, as scheduled time, the first instant of
  \<^verbatim>\<open>datetime\<close> with an offset of one hour, whose instant in UTC lies before that range.
\<close>

definition entry_edge :: json where
  "entry_edge =
     JObj [(lit ''route'', JObj [(lit ''short_name'', JStr (lit ''A''))]),
           (lit ''trip'', JObj [(lit ''headsign'', JStr (lit ''Skalka''))]),
           (lit ''departure_timestamp'',
              JObj [(lit ''predicted'', JStr (lit ''2030-01-01T10:05:00'')),
                    (lit ''scheduled'', JStr (lit ''0001-01-01T00:00:00+01:00''))])]"

definition board_edge :: json where
  "board_edge = JObj [(lit ''departures'', JArr [entry_last_stop, entry_edge])]"

definition cycle_edge :: cycle where
  "cycle_edge = \<lparr>answer = Payload board_edge, now_parse = board_now,
                  now_store = 1893491000200000\<rparr>"

section \<open>Properties\<close>

subsection \<open>Auxiliary facts\<close>

lemma and_then_Inl [simp]: "and_then (Inl e) f = Inl e"
  by (simp add: and_then_def)

lemma and_then_Inr [simp]: "and_then (Inr x) f = f x"
  by (simp add: and_then_def)

lemma and_then_eq_Inr:
  "and_then r f = Inr y \<longleftrightarrow> (\<exists>x. r = Inr x \<and> f x = Inr y)"
  by (cases r) simp_all

lemma lit_eq_iff [simp]: "lit a = lit b \<longleftrightarrow> a = b"
  by (simp add: lit_def inj_map_eq_map inj_of_char)

lemma lit_Nil [simp]: "lit [] = []"
  by (simp add: lit_def)

lemma lit_eq_Nil [simp]: "lit a = [] \<longleftrightarrow> a = []"
  by (simp add: lit_def)

subsection \<open>Doubles and clock readings at the values used below\<close>

lemmas double_eval =
  true_divide_def round_half_even_def double_floordiv_def double_to_int_def total_seconds_def
  bit_length.simps Let_def

lemma int_div60_values:
  "int_div60 0 = 0" "int_div60 60 = 1" "int_div60 120 = 2" "int_div60 600 = 10"
  "int_div60 (- 880) = - 14" "int_div60 3720 = 62"
  by (simp_all add: int_div60_def double_eval)

lemma minutes_values:
  "double_floordiv (total_seconds 1300000000) 60 = 21"
  "double_floordiv (total_seconds 1000000000) 60 = 16"
  by (simp_all add: double_eval)

lemma now_ts_values:
  "now_ts mock_env = 0" "now_ts broken_env = 0"
  "now_ts utc_host = 1893491000" "now_ts prague_host = 1893487400"
  by (simp_all add: now_ts_def mock_env_def broken_env_def utc_host_def prague_host_def)

subsection \<open>The poller and the liveness flag of structure A\<close>

lemma poller_cycle_LAST_OK:
  "LAST_OK_UTC (poller_cycle L cfg c st) =
     (if succeeded L cfg c then Some (now_store c) else LAST_OK_UTC st)"
  by (simp add: poller_cycle_def succeeded_def split: option.splits)

lemma poller_loop_LAST_OK:
  "LAST_OK_UTC (poller_loop L cfg cs st) =
     (case last_success L cfg cs of Some t \<Rightarrow> Some t | None \<Rightarrow> LAST_OK_UTC st)"
  by (induction cs arbitrary: st) (auto simp: poller_cycle_LAST_OK split: option.splits)

lemma last_success_None:
  "last_success L cfg cs = None \<longleftrightarrow> (\<forall>c \<in> set cs. \<not> succeeded L cfg c)"
  by (induction cs) (auto split: option.splits)

lemma succeeded_empty_batch: "succeeded example_lib example_settings cycle_empty_batch"
  by (simp add: succeeded_def cycle_empty_batch_def example_settings_def
      fetch_golemio_departures_def normalize_departureboards_def py_or_def)

lemma not_succeeded_failed: "\<not> succeeded example_lib example_settings cycle_failed"
  by (simp add: succeeded_def cycle_failed_def fetch_golemio_departures_def)

lemma fetch_gtfs_rt_mock:
  "fetch_gtfs_rt mock_env mock_url =
     Some [\<lparr>line = lit ''X'', dest = lit ''X'', in_min = 2, t_utc = None\<rparr>]"
  by (simp add: fetch_gtfs_rt_def mock_url_def gtfs_content_def startswith_def str_lower_def
      mock_env_def mock_feed_def gtfs_departures_def entity_departure_def now_ts_def
      int_div60_values lit_def Let_def)

lemma fetch_gtfs_rt_broken: "fetch_gtfs_rt broken_env mock_url = None"
  by (simp add: fetch_gtfs_rt_def mock_url_def gtfs_content_def startswith_def str_lower_def
      broken_env_def lit_def)

lemma normalize_line_B:
  "normalize_departureboards example_lib 1893491000000000 payload_line_B METRO_LINE = Inr []"
  by (simp add: normalize_departureboards_def payload_line_B_def METRO_LINE_def get_def
      py_or_def normalize_entry_def example_lib_def py_str_def str_strip_def str_upper_def
      upper_char_def is_space_def lit_def)

lemma fetch_golemio_failures:
  "API_KEY cfg = [] \<or> up = GetRaised \<or> up = StatusRaised \<or> up = JsonRaised \<or>
     (\<exists>p e. up = Payload p \<and> normalize_departureboards L now p METRO_LINE = Inl e) \<Longrightarrow>
   fetch_golemio_departures L cfg now up = None"
  by (auto simp: fetch_golemio_departures_def)

lemma fetch_gtfs_failures:
  "url = None \<or> url = Some [] \<or>
     (\<exists>u. url = Some u \<and>
        (gtfs_content E u = None \<or>
         (\<exists>b. gtfs_content E u = Some b \<and> ParseFromString E b = None))) \<Longrightarrow>
   fetch_gtfs_rt E url = None"
  by (auto simp: fetch_gtfs_rt_def)

lemma poller_loop_all_failed:
  "\<forall>c \<in> set cs. \<not> succeeded L cfg c \<Longrightarrow> poller_loop L cfg cs st = st"
  by (induction cs arbitrary: st) (simp_all add: poller_cycle_def succeeded_def)

lemma gtfs_passes_all_failed:
  "\<forall>E \<in> set Es. fetch_gtfs_rt E url = None \<Longrightarrow> gtfs_passes url Es st = st"
  by (induction Es arbitrary: st) (simp_all add: gtfs_poller_cycle_def)

text \<open>
  C2, as amended. In structure A a pass whose fetch yields nothing leaves the store as it
  was, and a pass whose fetch yields a batch stores that batch and the current instant.
  The fetch yields nothing without a key, when one of the three calls on the HTTP client
  raises and when the parser raises; after any number of such passes the store is still
  what it was. In structure C a pass whose fetch yields nothing (no locator, no content, no
  decodable message) leaves the store as it was, and a pass whose fetch yields a batch
  stores that batch and nothing else: structure C keeps no last-success instant, so that
  component stays what it was.
\<close>

theorem poller_cycle_effect:
  "(fetch_golemio_departures L cfg (now_parse c) (answer c) = None \<longrightarrow>
      poller_cycle L cfg c st = st)
   \<and> (\<forall>deps. fetch_golemio_departures L cfg (now_parse c) (answer c) = Some deps \<longrightarrow>
        poller_cycle L cfg c st =
          st\<lparr>LATEST_DEPARTURES := deps, LAST_OK_UTC := Some (now_store c)\<rparr>)
   \<and> (API_KEY cfg = [] \<or> answer c = GetRaised \<or> answer c = StatusRaised \<or>
       answer c = JsonRaised \<or>
       (\<exists>p e. answer c = Payload p \<and>
          normalize_departureboards L (now_parse c) p METRO_LINE = Inl e) \<longrightarrow>
        fetch_golemio_departures L cfg (now_parse c) (answer c) = None)
   \<and> ((\<forall>c \<in> set cs. \<not> succeeded L cfg c) \<longrightarrow> poller_loop L cfg cs st = st)
   \<and> (fetch_gtfs_rt E url = None \<longrightarrow> gtfs_poller_cycle url E st = st)
   \<and> (\<forall>deps. fetch_gtfs_rt E url = Some deps \<longrightarrow>
        gtfs_poller_cycle url E st = st\<lparr>LATEST_DEPARTURES := deps\<rparr>)
   \<and> (url = None \<or> url = Some [] \<or>
       (\<exists>u. url = Some u \<and>
          (gtfs_content E u = None \<or>
           (\<exists>b. gtfs_content E u = Some b \<and> ParseFromString E b = None))) \<longrightarrow>
        fetch_gtfs_rt E url = None)
   \<and> ((\<forall>E \<in> set Es. fetch_gtfs_rt E url = None) \<longrightarrow> gtfs_poller_loop url Es st = st)"
proof -
  have a: "fetch_golemio_departures L cfg (now_parse c) (answer c) = None \<longrightarrow>
      poller_cycle L cfg c st = st"
    by (simp add: poller_cycle_def)
  have b: "\<forall>deps. fetch_golemio_departures L cfg (now_parse c) (answer c) = Some deps \<longrightarrow>
        poller_cycle L cfg c st =
          st\<lparr>LATEST_DEPARTURES := deps, LAST_OK_UTC := Some (now_store c)\<rparr>"
    by (simp add: poller_cycle_def)
  have c: "API_KEY cfg = [] \<or> answer c = GetRaised \<or> answer c = StatusRaised \<or>
       answer c = JsonRaised \<or>
       (\<exists>p e. answer c = Payload p \<and>
          normalize_departureboards L (now_parse c) p METRO_LINE = Inl e) \<longrightarrow>
        fetch_golemio_departures L cfg (now_parse c) (answer c) = None"
    using fetch_golemio_failures [of cfg "answer c" L "now_parse c"] by blast
  have d: "(\<forall>c \<in> set cs. \<not> succeeded L cfg c) \<longrightarrow> poller_loop L cfg cs st = st"
    using poller_loop_all_failed by blast
  have e: "fetch_gtfs_rt E url = None \<longrightarrow> gtfs_poller_cycle url E st = st"
    by (simp add: gtfs_poller_cycle_def)
  have f: "\<forall>deps. fetch_gtfs_rt E url = Some deps \<longrightarrow>
        gtfs_poller_cycle url E st = st\<lparr>LATEST_DEPARTURES := deps\<rparr>"
    by (simp add: gtfs_poller_cycle_def)
  have g: "url = None \<or> url = Some [] \<or>
       (\<exists>u. url = Some u \<and>
          (gtfs_content E u = None \<or>
           (\<exists>b. gtfs_content E u = Some b \<and> ParseFromString E b = None))) \<longrightarrow>
        fetch_gtfs_rt E url = None"
    using fetch_gtfs_failures [of url E] by blast
  have h: "(\<forall>E \<in> set Es. fetch_gtfs_rt E url = None) \<longrightarrow> gtfs_poller_loop url Es st = st"
    using gtfs_passes_all_failed [of Es url st]
    by (auto simp: gtfs_poller_loop_def split: option.splits)
  from a b c d e f g h show ?thesis by blast
qed

theorem poller_cycle_effect_witness:
  "poller_cycle example_lib example_settings cycle_failed store_one = store_one
   \<and> poller_loop example_lib example_settings [cycle_failed, cycle_failed] store_one = store_one
   \<and> LATEST_DEPARTURES (poller_cycle example_lib example_settings cycle_line_B store_one) = []
   \<and> LAST_OK_UTC (poller_cycle example_lib example_settings cycle_line_B store_one)
       = Some 1893491000200000
   \<and> gtfs_poller_cycle mock_url broken_env store_one = store_one
   \<and> gtfs_poller_loop mock_url [broken_env, broken_env] store_one = store_one
   \<and> LATEST_DEPARTURES (gtfs_poller_cycle mock_url mock_env store_one)
       = [\<lparr>line = lit ''X'', dest = lit ''X'', in_min = 2, t_utc = None\<rparr>]
   \<and> LAST_OK_UTC (gtfs_poller_cycle mock_url mock_env store_one) = Some 5"
proof -
  have a: "answer cycle_failed = StatusRaised"
    by (simp add: cycle_failed_def)
  have b: "fetch_golemio_departures example_lib example_settings (now_parse cycle_line_B)
             (answer cycle_line_B) = Some []"
    by (simp add: fetch_golemio_departures_def cycle_line_B_def example_settings_def
        normalize_line_B)
  have s: "LAST_OK_UTC store_one = Some 5" "now_store cycle_line_B = 1893491000200000"
    by (simp_all add: store_one_def cycle_line_B_def)
  show ?thesis
    using poller_cycle_effect [of example_lib example_settings cycle_failed store_one
        "[cycle_failed, cycle_failed]" broken_env mock_url "[broken_env, broken_env]"]
      poller_cycle_effect [of example_lib example_settings cycle_line_B store_one
        "[]" mock_env mock_url "[]"]
      a b s fetch_gtfs_rt_mock fetch_gtfs_rt_broken not_succeeded_failed
    by simp
qed

text \<open>
  C2 as stated fails on structure C: the pass below fetches and parses the mock feed, and
  the last-success instant is as unknown after it as before.
\<close>

theorem gtfs_cycle_keeps_no_instant:
  "fetch_gtfs_rt mock_env mock_url =
     Some [\<lparr>line = lit ''X'', dest = lit ''X'', in_min = 2, t_utc = None\<rparr>]
   \<and> LAST_OK_UTC (gtfs_poller_cycle mock_url mock_env initial_store) = None"
  by (simp add: fetch_gtfs_rt_mock gtfs_poller_cycle_def initial_store_def)

text \<open>
  C3. The flag \<^verbatim>\<open>_is_online()\<close> reports is true exactly when some pass of the poller has
  succeeded and the evaluation instant is at most the threshold after the last-success
  instant. While no pass has succeeded it is false at every instant; with a last-success
  instant older than the threshold it is false at once: the flag is a function of the
  evaluation instant, the stored instant and the threshold alone.
\<close>

theorem online_iff_recent_success:
  "(is_online cfg now (poller_loop L cfg cs initial_store) \<longleftrightarrow>
      (\<exists>t. last_success L cfg cs = Some t \<and> now - t \<le> OFFLINE_AFTER_SECONDS cfg * 1000000))
   \<and> (last_success L cfg cs = None \<longleftrightarrow> (\<forall>c \<in> set cs. \<not> succeeded L cfg c))
   \<and> ((\<forall>c \<in> set cs. \<not> succeeded L cfg c) \<longrightarrow>
        \<not> is_online cfg now (poller_loop L cfg cs initial_store))
   \<and> (is_online cfg now st \<longleftrightarrow>
        (\<exists>t. LAST_OK_UTC st = Some t \<and> now - t \<le> OFFLINE_AFTER_SECONDS cfg * 1000000))
   \<and> (LAST_OK_UTC st = None \<longrightarrow> \<not> is_online cfg now st)
   \<and> (\<forall>t. LAST_OK_UTC st = Some t \<and> OFFLINE_AFTER_SECONDS cfg * 1000000 < now - t
          \<longrightarrow> \<not> is_online cfg now st)"
proof -
  have run: "LAST_OK_UTC (poller_loop L cfg cs initial_store) = last_success L cfg cs"
    by (simp add: poller_loop_LAST_OK initial_store_def split: option.splits)
  have a: "is_online cfg now (poller_loop L cfg cs initial_store) \<longleftrightarrow>
      (\<exists>t. last_success L cfg cs = Some t \<and> now - t \<le> OFFLINE_AFTER_SECONDS cfg * 1000000)"
    by (simp add: is_online_def run split: option.splits)
  have b: "last_success L cfg cs = None \<longleftrightarrow> (\<forall>c \<in> set cs. \<not> succeeded L cfg c)"
    by (rule last_success_None)
  have c: "(\<forall>c \<in> set cs. \<not> succeeded L cfg c) \<longrightarrow>
      \<not> is_online cfg now (poller_loop L cfg cs initial_store)"
    using a b by auto
  have d: "is_online cfg now st \<longleftrightarrow>
        (\<exists>t. LAST_OK_UTC st = Some t \<and> now - t \<le> OFFLINE_AFTER_SECONDS cfg * 1000000)"
    by (simp add: is_online_def split: option.splits)
  have e: "LAST_OK_UTC st = None \<longrightarrow> \<not> is_online cfg now st"
    by (simp add: is_online_def)
  have f: "\<forall>t. LAST_OK_UTC st = Some t \<and> OFFLINE_AFTER_SECONDS cfg * 1000000 < now - t
          \<longrightarrow> \<not> is_online cfg now st"
    by (simp add: is_online_def)
  from a b c d e f show ?thesis by blast
qed

theorem online_iff_recent_success_witness:
  "is_online example_settings 60000005
     (poller_loop example_lib example_settings [cycle_empty_batch] initial_store)
   \<and> \<not> is_online example_settings 60000006
     (poller_loop example_lib example_settings [cycle_empty_batch] initial_store)
   \<and> \<not> is_online example_settings 0
     (poller_loop example_lib example_settings [cycle_failed] initial_store)
   \<and> \<not> is_online example_settings 60000006 store_one"
  using online_iff_recent_success [of example_settings 60000005 example_lib
      "[cycle_empty_batch]" initial_store]
    online_iff_recent_success [of example_settings 60000006 example_lib
      "[cycle_empty_batch]" store_one]
    online_iff_recent_success [of example_settings 0 example_lib "[cycle_failed]" initial_store]
    succeeded_empty_batch not_succeeded_failed
  by (simp add: example_settings_def cycle_empty_batch_def store_one_def)

text \<open>
  C10. A pass whose fetch and parse succeed with a batch of no departures is a success: it
  stores the empty list and the current instant, and the flag is true at every evaluation
  instant at most the threshold later, while the board is empty.
\<close>

theorem empty_batch_is_success:
  assumes "API_KEY cfg \<noteq> []"
    and "answer c = Payload payload"
    and "normalize_departureboards L (now_parse c) payload METRO_LINE = Inr []"
  shows "fetch_golemio_departures L cfg (now_parse c) (answer c) = Some []
    \<and> succeeded L cfg c
    \<and> LATEST_DEPARTURES (poller_cycle L cfg c st) = []
    \<and> LAST_OK_UTC (poller_cycle L cfg c st) = Some (now_store c)
    \<and> (now - now_store c \<le> OFFLINE_AFTER_SECONDS cfg * 1000000 \<longrightarrow>
         is_online cfg now (poller_cycle L cfg c st) \<and>
         LATEST_DEPARTURES (poller_cycle L cfg c st) = [])"
proof -
  have f: "fetch_golemio_departures L cfg (now_parse c) (answer c) = Some []"
    using assms by (simp add: fetch_golemio_departures_def)
  then have st': "poller_cycle L cfg c st =
      st\<lparr>LATEST_DEPARTURES := [], LAST_OK_UTC := Some (now_store c)\<rparr>"
    by (simp add: poller_cycle_def)
  show ?thesis
    using f by (simp add: st' succeeded_def is_online_def)
qed

theorem empty_batch_is_success_witness:
  "API_KEY example_settings \<noteq> []
   \<and> normalize_departureboards example_lib (now_parse cycle_line_B) payload_line_B METRO_LINE
       = Inr []
   \<and> LATEST_DEPARTURES (poller_cycle example_lib example_settings cycle_line_B store_one) = []
   \<and> is_online example_settings 1893491060200000
       (poller_cycle example_lib example_settings cycle_line_B store_one)"
proof -
  have k: "API_KEY example_settings \<noteq> []"
    by (simp add: example_settings_def)
  have a: "answer cycle_line_B = Payload payload_line_B"
    by (simp add: cycle_line_B_def)
  have n: "normalize_departureboards example_lib (now_parse cycle_line_B) payload_line_B
             METRO_LINE = Inr []"
    by (simp add: cycle_line_B_def normalize_line_B)
  show ?thesis
    using empty_batch_is_success [OF k a n, where now = 1893491060200000 and st = store_one] k n
    by (simp add: cycle_line_B_def example_settings_def)
qed

subsection \<open>The push channel\<close>

lemma pushed_ws_updates:
  "pushed (ws_updates cfg now now_online st) =
     (if LATEST_DEPARTURES st = [] \<or> take 20 (LATEST_DEPARTURES st) = []
      then [\<lparr>line = METRO_LINE, dest = em_dash, in_min = 0, t_utc = Some now\<rparr>]
      else take 20 (LATEST_DEPARTURES st))"
  by (simp add: pushed_def ws_updates_def Let_def)

lemma pushed_websocket_endpoint:
  "pushed (websocket_endpoint randint now st) =
     (if LATEST_DEPARTURES st \<noteq> [] then take 20 (LATEST_DEPARTURES st) else simulated randint)"
  by (simp add: pushed_def websocket_endpoint_def Let_def)

lemma length_simulated: "length (simulated randint) = 4"
  by (simp add: simulated_def base_lines_def)

lemma upt_4: "[0..<4] = [0, 1, 2, 3]"
  by (simp add: upt_rec numeral_2_eq_2 numeral_3_eq_3)

lemma simulated_eq:
  "simulated randint =
     [\<lparr>line = lit ''A'', dest = lit ''Muzeum'', in_min = randint 0, t_utc = None\<rparr>,
      \<lparr>line = lit ''B'', dest = lit ''Florenc'', in_min = randint 1, t_utc = None\<rparr>,
      \<lparr>line = lit ''C'', dest = lit ''Hrad'' @ [269] @ lit ''ansk'' @ [225],
        in_min = randint 2, t_utc = None\<rparr>,
      \<lparr>line = lit ''D'', dest = lit ''Hloub'' @ [283] @ lit ''t'' @ [237] @ lit ''n'',
        in_min = randint 3, t_utc = None\<rparr>]"
  by (simp add: simulated_def base_lines_def upt_4 eval_nat_numeral)

text \<open>
  C8, as amended. Every message \<^verbatim>\<open>ws_updates\<close> of structure A sends has the keys \<open>t\<close>,
  \<open>departures\<close> and \<open>online\<close>, holding the instant read at the top of the pass, a list of
  at most 20 departures and the liveness flag, which is \<^verbatim>\<open>_is_online()\<close> at its own, later
  reading of the clock. Every message \<^verbatim>\<open>websocket_endpoint\<close> of structure C sends has the
  keys \<open>t\<close> and \<open>departures\<close> only, the list again of at most 20 departures.
\<close>

theorem push_message_shape:
  "ws_updates cfg now now_online st =
     [(lit ''t'', Instant now),
      (lit ''departures'', Departures (pushed (ws_updates cfg now now_online st))),
      (lit ''online'', Flag (is_online cfg now_online st))]
   \<and> keys (ws_updates cfg now now_online st) = [lit ''t'', lit ''departures'', lit ''online'']
   \<and> length (pushed (ws_updates cfg now now_online st)) \<le> 20
   \<and> websocket_endpoint randint now st =
     [(lit ''t'', Instant now),
      (lit ''departures'', Departures (pushed (websocket_endpoint randint now st)))]
   \<and> keys (websocket_endpoint randint now st) = [lit ''t'', lit ''departures'']
   \<and> length (pushed (websocket_endpoint randint now st)) \<le> 20"
proof -
  have a: "ws_updates cfg now now_online st =
     [(lit ''t'', Instant now),
      (lit ''departures'', Departures (pushed (ws_updates cfg now now_online st))),
      (lit ''online'', Flag (is_online cfg now_online st))]"
    by (simp add: pushed_def) (simp add: ws_updates_def Let_def)
  have b: "length (pushed (ws_updates cfg now now_online st)) \<le> 20"
    by (simp add: pushed_ws_updates)
  have c: "websocket_endpoint randint now st =
     [(lit ''t'', Instant now),
      (lit ''departures'', Departures (pushed (websocket_endpoint randint now st)))]"
    by (simp add: pushed_def) (simp add: websocket_endpoint_def Let_def)
  have d: "length (pushed (websocket_endpoint randint now st)) \<le> 20"
    by (simp add: pushed_websocket_endpoint length_simulated)
  have e: "keys (ws_updates cfg now now_online st) = [lit ''t'', lit ''departures'', lit ''online'']"
    by (simp add: keys_def ws_updates_def Let_def)
  have f: "keys (websocket_endpoint randint now st) = [lit ''t'', lit ''departures'']"
    by (simp add: keys_def websocket_endpoint_def Let_def)
  from a b c d e f show ?thesis by blast
qed

theorem push_message_shape_witness:
  "ws_updates example_settings 60000004 60000006 store_one =
     [(lit ''t'', Instant 60000004),
      (lit ''departures'', Departures (LATEST_DEPARTURES store_one)),
      (lit ''online'', Flag False)]
   \<and> is_online example_settings 60000004 store_one
   \<and> ws_updates example_settings 7 8 store_one =
     [(lit ''t'', Instant 7),
      (lit ''departures'', Departures (LATEST_DEPARTURES store_one)),
      (lit ''online'', Flag True)]
   \<and> websocket_endpoint (\<lambda>i. 1) 7 store_one =
     [(lit ''t'', Instant 7), (lit ''departures'', Departures (LATEST_DEPARTURES store_one))]"
  using push_message_shape [of example_settings 60000004 60000006 store_one "\<lambda>i. 1"]
    push_message_shape [of example_settings 7 8 store_one "\<lambda>i. 1"]
  by (simp add: pushed_ws_updates pushed_websocket_endpoint store_one_def is_online_def
      example_settings_def)

text \<open>
  C8 as stated fails on structure C: its message has no key \<open>online\<close>.
\<close>

theorem gtfs_message_without_online:
  "keys (websocket_endpoint (\<lambda>i. 1) 7 store_one) = [lit ''t'', lit ''departures'']
   \<and> map_of (websocket_endpoint (\<lambda>i. 1) 7 store_one) (lit ''online'') = None"
  by (simp add: keys_def websocket_endpoint_def Let_def)

text \<open>
  C9, as amended. Neither push loop reads the fallback file, so what it yields is no input
  of a pass. With an empty snapshot, \<^verbatim>\<open>ws_updates\<close> of structure A pushes exactly one record:
  the configured line, the em dash as destination, zero minutes (and the instant of the
  pass). With an empty snapshot, \<^verbatim>\<open>websocket_endpoint\<close> of structure C pushes the four
  simulated records of the lines A to D, whose minutes are the values drawn from 1 to 12.
  Neither ever pushes an empty departures list.
\<close>

theorem empty_snapshot_push:
  "(LATEST_DEPARTURES st = [] \<longrightarrow>
      pushed (ws_updates cfg now now_online st) =
        [\<lparr>line = METRO_LINE, dest = em_dash, in_min = 0, t_utc = Some now\<rparr>])
   \<and> pushed (ws_updates cfg now now_online st) \<noteq> []
   \<and> (LATEST_DEPARTURES st = [] \<longrightarrow>
        pushed (websocket_endpoint randint now st) = simulated randint)
   \<and> length (simulated randint) = 4
   \<and> map line (simulated randint) = [lit ''A'', lit ''B'', lit ''C'', lit ''D'']
   \<and> map in_min (simulated randint) = [randint 0, randint 1, randint 2, randint 3]
   \<and> ((\<forall>i<4. 1 \<le> randint i \<and> randint i \<le> 12) \<longrightarrow>
        (\<forall>d \<in> set (simulated randint). 1 \<le> in_min d \<and> in_min d \<le> 12))
   \<and> pushed (websocket_endpoint randint now st) \<noteq> []"
proof -
  have a: "pushed (ws_updates cfg now now_online st) \<noteq> []"
    by (simp add: pushed_ws_updates)
  have b: "pushed (websocket_endpoint randint now st) \<noteq> []"
    using length_simulated [of randint] by (auto simp: pushed_websocket_endpoint)
  have c: "(\<forall>i<4. 1 \<le> randint i \<and> randint i \<le> 12) \<longrightarrow>
        (\<forall>d \<in> set (simulated randint). 1 \<le> in_min d \<and> in_min d \<le> 12)"
    by (auto simp: simulated_eq)
  show ?thesis
    using a b c
    by (simp add: pushed_ws_updates pushed_websocket_endpoint length_simulated)
      (simp add: simulated_eq)
qed

theorem empty_snapshot_push_witness:
  "LATEST_DEPARTURES initial_store = []
   \<and> pushed (ws_updates example_settings 7 8 initial_store) =
        [\<lparr>line = lit ''A'', dest = [8212], in_min = 0, t_utc = Some 7\<rparr>]
   \<and> map in_min (pushed (websocket_endpoint (\<lambda>i. 1 + int i) 7 initial_store)) = [1, 2, 3, 4]
   \<and> list_all (\<lambda>d. 1 \<le> in_min d \<and> in_min d \<le> 12) (simulated (\<lambda>i. 1 + int i))"
proof -
  have r: "\<forall>i<4. 1 \<le> (\<lambda>i. 1 + int i) i \<and> (\<lambda>i. 1 + int i) i \<le> 12"
    by auto
  show ?thesis
    using empty_snapshot_push [of initial_store example_settings 7 8 "\<lambda>i. 1 + int i"] r
    by (simp add: initial_store_def METRO_LINE_def em_dash_def list_all_iff)
qed

text \<open>
  C9 as stated fails on structure C: with the empty snapshot the pass pushes four records,
  none of zero minutes, where the claim has one placeholder record.
\<close>

theorem gtfs_push_is_no_placeholder:
  "LATEST_DEPARTURES initial_store = []
   \<and> length (pushed (websocket_endpoint (\<lambda>i. 1) 7 initial_store)) = 4
   \<and> map in_min (pushed (websocket_endpoint (\<lambda>i. 1) 7 initial_store)) = [1, 1, 1, 1]"
  by (simp add: pushed_websocket_endpoint initial_store_def simulated_eq)

subsection \<open>The parser of structure C\<close>


lemma first_arrival_None:
  "first_arrival stus = None \<longleftrightarrow> (\<forall>s \<in> set stus. arrival s = None \<or> arrival s = Some 0)"
  by (induction stus) (auto split: option.splits)

lemma first_arrival_skip:
  "\<forall>s \<in> set pre. arrival s = None \<or> arrival s = Some 0 \<Longrightarrow>
     first_arrival (pre @ rest) = first_arrival rest"
  by (induction pre) (auto split: option.splits)

lemma first_arrival_first:
  assumes "\<forall>s \<in> set pre. arrival s = None \<or> arrival s = Some 0"
    and "arrival stu = Some a" and "a \<noteq> 0"
  shows "first_arrival (pre @ stu # post) = Some a"
  using assms by (simp add: first_arrival_skip)

lemma first_arrival_Some:
  "first_arrival stus = Some a \<Longrightarrow>
     \<exists>pre stu post. stus = pre @ stu # post \<and> arrival stu = Some a \<and> a \<noteq> 0 \<and>
       (\<forall>s \<in> set pre. arrival s = None \<or> arrival s = Some 0)"
proof (induction stus)
  case Nil
  then show ?case by simp
next
  case (Cons s stus)
  show ?case
  proof (cases "\<exists>t. arrival s = Some t \<and> t \<noteq> 0")
    case True
    then have "arrival s = Some a" "a \<noteq> 0"
      using Cons.prems by auto
    then have "s # stus = [] @ s # stus \<and> arrival s = Some a \<and> a \<noteq> 0 \<and>
        (\<forall>x \<in> set []. arrival x = None \<or> arrival x = Some 0)"
      by simp
    then show ?thesis by blast
  next
    case False
    then have skip: "arrival s = None \<or> arrival s = Some 0"
      by (cases "arrival s") auto
    then have "first_arrival stus = Some a"
      using Cons.prems by (auto split: option.splits)
    then obtain pre stu post where p: "stus = pre @ stu # post" "arrival stu = Some a" "a \<noteq> 0"
        "\<forall>x \<in> set pre. arrival x = None \<or> arrival x = Some 0"
      using Cons.IH by blast
    then have "s # stus = (s # pre) @ stu # post \<and> arrival stu = Some a \<and> a \<noteq> 0 \<and>
        (\<forall>x \<in> set (s # pre). arrival x = None \<or> arrival x = Some 0)"
      using skip by simp
    then show ?thesis by blast
  qed
qed

lemma entity_departure_eq:
  "entity_departure now e =
     (case trip_update e of
        None \<Rightarrow> None
      | Some tu \<Rightarrow>
          (case first_arrival (stop_time_updates tu) of
             None \<Rightarrow> None
           | Some a \<Rightarrow>
               Some \<lparr>line = (if take 10 (route_id tu) \<noteq> [] then take 10 (route_id tu)
                             else lit ''?''),
                     dest = (case trip_headsign tu of
                               Some h \<Rightarrow> (if h \<noteq> [] then h
                                          else if take 10 (route_id tu) \<noteq> []
                                          then take 10 (route_id tu) else lit ''?'')
                             | None \<Rightarrow> (if take 10 (route_id tu) \<noteq> []
                                        then take 10 (route_id tu) else lit ''?'')),
                     in_min = max 0 (int_div60 (a - now)),
                     t_utc = None\<rparr>))"
  by (simp add: entity_departure_def Let_def split: option.splits)

lemma entity_departure_Some:
  assumes "entity_departure now e = Some r"
  shows "\<exists>tu a. trip_update e = Some tu \<and> first_arrival (stop_time_updates tu) = Some a \<and>
           line r = (if take 10 (route_id tu) \<noteq> [] then take 10 (route_id tu) else lit ''?'') \<and>
           in_min r = max 0 (int_div60 (a - now)) \<and> t_utc r = None"
proof (cases "trip_update e")
  case None
  then show ?thesis using assms by (simp add: entity_departure_eq)
next
  case (Some tu)
  show ?thesis
  proof (cases "first_arrival (stop_time_updates tu)")
    case None
    then show ?thesis using assms Some by (simp add: entity_departure_eq)
  next
    case a: (Some a)
    have "line r = (if take 10 (route_id tu) \<noteq> [] then take 10 (route_id tu) else lit ''?'')"
      using assms Some a by (simp add: entity_departure_eq) (cases r, simp)
    moreover have "in_min r = max 0 (int_div60 (a - now))"
      using assms Some a by (simp add: entity_departure_eq) (cases r, simp)
    moreover have "t_utc r = None"
      using assms Some a by (simp add: entity_departure_eq) (cases r, simp)
    ultimately show ?thesis using Some a by blast
  qed
qed

lemma entity_departure_None:
  "entity_departure now e = None \<longleftrightarrow>
     (trip_update e = None \<or>
      (\<exists>tu. trip_update e = Some tu \<and> first_arrival (stop_time_updates tu) = None))"
  by (simp add: entity_departure_eq split: option.splits)

lemma length_map_filter_le:
  "length (List.map_filter f xs) \<le> length (filter (\<lambda>x. f x \<noteq> None) xs)"
  by (induction xs) (auto simp: List.map_filter_simps split: option.splits)

lemma set_map_filter: "set (List.map_filter f xs) = {y. \<exists>x \<in> set xs. f x = Some y}"
  by (induction xs) (auto simp: List.map_filter_simps split: option.splits)

lemma records_per_entity:
  "length (List.map_filter (entity_departure now) feed)
     \<le> length (filter (\<lambda>e. trip_update e \<noteq> None) feed)"
proof -
  have "length (filter (\<lambda>e. entity_departure now e \<noteq> None) feed)
      \<le> length (filter (\<lambda>e. trip_update e \<noteq> None) feed)"
    by (induction feed) (auto simp: entity_departure_None)
  then show ?thesis
    using length_map_filter_le [of "entity_departure now" feed] by linarith
qed

lemma sorted_gtfs_departures: "sorted (map in_min (gtfs_departures now feed))"
  by (simp add: gtfs_departures_def take_map [symmetric] sorted_wrt_take)

lemma set_gtfs_departures:
  "r \<in> set (gtfs_departures now feed) \<Longrightarrow> \<exists>e \<in> set feed. entity_departure now e = Some r"
proof -
  assume "r \<in> set (gtfs_departures now feed)"
  then have "r \<in> set (sort_key in_min (List.map_filter (entity_departure now) feed))"
    unfolding gtfs_departures_def by (rule in_set_takeD)
  then show ?thesis
    by (simp add: set_map_filter)
qed


lemma gtfs_departures_no_route:
  "gtfs_departures 0 feed_no_route =
     [\<lparr>line = lit ''?'', dest = lit ''?'', in_min = 2, t_utc = None\<rparr>]"
  by (simp add: gtfs_departures_def feed_no_route_def entity_departure_eq int_div60_values)

lemma entity_three_stops:
  "entity_departure 0 \<lparr>trip_update = Some trip_three_stops\<rparr> =
     Some \<lparr>line = lit ''LINE-01234'', dest = lit ''Depo'', in_min = 10, t_utc = None\<rparr>"
  by (simp add: entity_departure_eq trip_three_stops_def int_div60_values lit_def)

text \<open>
  C7, as amended. An entity without a trip update contributes no record; an entity with a
  trip update contributes at most one, taken from the first of its stop-time updates, in
  order, that has an arrival whose time is not zero, whatever updates follow it. The line
  of the record is the route id cut to at most 10 characters, or \<open>?\<close> when the route id is
  empty. The batch is these records in feed order, stably sorted ascending by minutes and
  then cut to at most 50.
\<close>

theorem gtfs_one_record_per_trip:
  "gtfs_departures now feed =
     take 50 (sort_key in_min (List.map_filter (entity_departure now) feed))
   \<and> length (List.map_filter (entity_departure now) feed)
        \<le> length (filter (\<lambda>e. trip_update e \<noteq> None) feed)
   \<and> (trip_update e = None \<longrightarrow> entity_departure now e = None)
   \<and> (\<forall>tu. trip_update e = Some tu \<and> first_arrival (stop_time_updates tu) = None \<longrightarrow>
         entity_departure now e = None)
   \<and> (\<forall>tu a. trip_update e = Some tu \<and> first_arrival (stop_time_updates tu) = Some a \<longrightarrow>
         (\<exists>r. entity_departure now e = Some r \<and>
              in_min r = max 0 (int_div60 (a - now)) \<and>
              line r = (if route_id tu = [] then lit ''?'' else take 10 (route_id tu)) \<and>
              length (line r) \<le> 10))
   \<and> (first_arrival stus = None \<longleftrightarrow>
        (\<forall>s \<in> set stus. arrival s = None \<or> arrival s = Some 0))
   \<and> (\<forall>a. (\<forall>s \<in> set pre. arrival s = None \<or> arrival s = Some 0) \<and>
            arrival stu = Some a \<and> a \<noteq> 0 \<longrightarrow>
          first_arrival (pre @ stu # post) = Some a)
   \<and> length (gtfs_departures now feed) \<le> 50
   \<and> sorted (map in_min (gtfs_departures now feed))"
proof -
  have a: "gtfs_departures now feed =
     take 50 (sort_key in_min (List.map_filter (entity_departure now) feed))"
    by (simp add: gtfs_departures_def)
  have b: "trip_update e = None \<longrightarrow> entity_departure now e = None"
    by (simp add: entity_departure_None)
  have c: "\<forall>tu. trip_update e = Some tu \<and> first_arrival (stop_time_updates tu) = None \<longrightarrow>
         entity_departure now e = None"
    by (simp add: entity_departure_None)
  have d: "\<forall>tu a. trip_update e = Some tu \<and> first_arrival (stop_time_updates tu) = Some a \<longrightarrow>
         (\<exists>r. entity_departure now e = Some r \<and>
              in_min r = max 0 (int_div60 (a - now)) \<and>
              line r = (if route_id tu = [] then lit ''?'' else take 10 (route_id tu)) \<and>
              length (line r) \<le> 10)"
    by (simp add: entity_departure_eq lit_def)
  have f: "\<forall>a. (\<forall>s \<in> set pre. arrival s = None \<or> arrival s = Some 0) \<and>
            arrival stu = Some a \<and> a \<noteq> 0 \<longrightarrow>
          first_arrival (pre @ stu # post) = Some a"
    using first_arrival_first by blast
  have g: "length (gtfs_departures now feed) \<le> 50"
    by (simp add: gtfs_departures_def)
  from a records_per_entity [of now feed] b c d first_arrival_None [of stus] f g
    sorted_gtfs_departures [of now feed]
  show ?thesis by blast
qed

theorem gtfs_one_record_per_trip_witness:
  "first_arrival (stop_time_updates trip_three_stops) = Some 600
   \<and> entity_departure 0 \<lparr>trip_update = Some trip_three_stops\<rparr> =
       Some \<lparr>line = lit ''LINE-01234'', dest = lit ''Depo'', in_min = 10, t_utc = None\<rparr>
   \<and> entity_departure 0 \<lparr>trip_update = None\<rparr> = None
   \<and> gtfs_departures 0 [\<lparr>trip_update = Some trip_three_stops\<rparr>, \<lparr>trip_update = None\<rparr>] =
       [\<lparr>line = lit ''LINE-01234'', dest = lit ''Depo'', in_min = 10, t_utc = None\<rparr>]"
proof -
  have fa: "first_arrival (stop_time_updates trip_three_stops) = Some 600"
    by (simp add: trip_three_stops_def)
  have pre: "\<forall>s \<in> set [\<lparr>arrival = None\<rparr>, \<lparr>arrival = Some 0\<rparr>].
      arrival s = None \<or> arrival s = Some 0"
    by simp
  show ?thesis
    using gtfs_one_record_per_trip [of 0
        "[\<lparr>trip_update = Some trip_three_stops\<rparr>, \<lparr>trip_update = None\<rparr>]"
        "\<lparr>trip_update = Some trip_three_stops\<rparr>"
        "stop_time_updates trip_three_stops"
        "[\<lparr>arrival = None\<rparr>, \<lparr>arrival = Some 0\<rparr>]" "\<lparr>arrival = Some 600\<rparr>"
        "[\<lparr>arrival = Some 60\<rparr>]"]
      fa pre entity_three_stops
    by (simp add: entity_departure_None List.map_filter_simps)
qed

text \<open>
  C7 as stated fails where the route id is empty: the line of the record is \<open>?\<close>, not the
  (empty) route id cut to 10 characters.
\<close>

theorem gtfs_line_of_empty_route:
  "map route_id (List.map_filter trip_update feed_no_route) = [[]]
   \<and> map line (gtfs_departures 0 feed_no_route) = [lit ''?'']
   \<and> lit ''?'' \<noteq> take 10 []"
  by (simp add: gtfs_departures_no_route) (simp add: feed_no_route_def List.map_filter_simps)

subsection \<open>The parser of structure A\<close>

lemma get_JObj [simp]:
  "get (JObj kvs) k = Inr (case map_of kvs k of None \<Rightarrow> JNull | Some v \<Rightarrow> v)"
  by (simp add: get_def)

lemma get_eq_Inr: "get v k = Inr x \<Longrightarrow> \<exists>kvs. v = JObj kvs"
  by (cases v) (simp_all add: get_def)

lemma and_then_return [simp]: "and_then r Inr = r"
  by (cases r) simp_all

lemma normalize_entry_SomeD:
  assumes "normalize_entry L ml now dep = Inr (Some r)"
  shows "\<exists>d0 used m dst. get dep (lit ''departure_timestamp'') = Inr d0 \<and>
           entry_timestamp L (py_or d0 (JObj [])) = Inr used \<and>
           minutes_until used now = Some m \<and>
           r = \<lparr>line = ml, dest = dst, in_min = m, t_utc = used\<rparr>"
  using assms
  by (auto simp: normalize_entry_def and_then_eq_Inr Let_def split: if_splits option.splits)

lemma normalize_entry_Some:
  assumes "normalize_entry L ml now dep = Inr (Some r)"
  shows "\<exists>d0 t. get dep (lit ''departure_timestamp'') = Inr d0 \<and>
           entry_timestamp L (py_or d0 (JObj [])) = Inr (Some t) \<and>
           t_utc r = Some t \<and>
           in_min r = max 0 (double_floordiv (total_seconds (t - now)) 60) \<and>
           line r = ml"
proof -
  from normalize_entry_SomeD [OF assms] obtain d0 used m dst where
    d0: "get dep (lit ''departure_timestamp'') = Inr d0"
    and ts: "entry_timestamp L (py_or d0 (JObj [])) = Inr used"
    and m: "minutes_until used now = Some m"
    and r: "r = \<lparr>line = ml, dest = dst, in_min = m, t_utc = used\<rparr>"
    by blast
  from m obtain t where u: "used = Some t"
    and mt: "m = max 0 (double_floordiv (total_seconds (t - now)) 60)"
    by (cases used) (auto simp: minutes_until_def)
  show ?thesis
    using d0 ts u mt r by simp
qed

lemma normalize_loop_set:
  "normalize_loop L ml now deps = Inr out \<Longrightarrow> r \<in> set out \<Longrightarrow>
     \<exists>dep \<in> set deps. normalize_entry L ml now dep = Inr (Some r)"
proof (induction deps arbitrary: out)
  case Nil
  then show ?case by simp
next
  case (Cons dep deps)
  from Cons.prems(1) obtain x rest where
    x: "normalize_entry L ml now dep = Inr x"
    and rest: "normalize_loop L ml now deps = Inr rest"
    and out: "out = (case x of None \<Rightarrow> rest | Some y \<Rightarrow> y # rest)"
    by (auto simp: and_then_eq_Inr)
  show ?case
  proof (cases "r \<in> set rest")
    case True
    then show ?thesis using Cons.IH [OF rest] by auto
  next
    case False
    then have "x = Some r"
      using Cons.prems(2) out by (cases x) auto
    then show ?thesis using x by simp
  qed
qed

lemma normalize_loop_skip:
  "normalize_entry L ml now dep = Inr None \<Longrightarrow>
     normalize_loop L ml now (xs @ dep # ys) = normalize_loop L ml now (xs @ ys)"
  by (induction xs) simp_all

lemma normalize_loop_raises:
  "normalize_entry L ml now dep = Inl e \<Longrightarrow>
     \<exists>e'. normalize_loop L ml now (xs @ dep # ys) = Inl e'"
proof (induction xs)
  case Nil
  then show ?case by simp
next
  case (Cons x xs)
  then obtain e' where "normalize_loop L ml now (xs @ dep # ys) = Inl e'"
    by blast
  then show ?case
    by (cases "normalize_entry L ml now x") simp_all
qed

lemma normalize_departureboards_Inr:
  assumes "normalize_departureboards L now payload target = Inr out"
  shows "\<exists>d0 deps recs.
           get_default payload (lit ''departures'') (JArr []) = Inr d0 \<and>
           iterate (py_or d0 (JArr [])) = Inr deps \<and>
           normalize_loop L (str_upper (upper_nonascii L) (str_strip target)) now deps = Inr recs \<and>
           out = sort_key (\<lambda>x. (in_min x, dest x)) recs"
  using assms by (auto simp: normalize_departureboards_def and_then_eq_Inr Let_def)



subsection \<open>Evaluation of the parser of structure A on the board\<close>

lemmas entry_eval =
  normalize_entry_def entry_timestamp_def dest_value_def parse_iso_def minutes_until_def
  minutes_values
  astimezone_utc_def py_or_def py_str_def str_strip_def str_upper_def upper_char_def
  is_space_def replace_Z_def em_dash_def example_lib_def lit_def Let_def

lemma entry_padded_record:
  "normalize_entry example_lib (lit ''A'') board_now entry_padded = Inr (Some record_padded)"
  by (simp add: entry_padded_def record_padded_def board_now_def entry_eval)

lemma entry_last_stop_record:
  "normalize_entry example_lib (lit ''A'') board_now entry_last_stop = Inr (Some record_last_stop)"
  by (simp add: entry_last_stop_def record_last_stop_def board_now_def entry_eval)

lemma entry_no_time_skipped:
  "normalize_entry example_lib (lit ''A'') board_now entry_no_time = Inr None"
  by (simp add: entry_no_time_def board_now_def entry_eval)

lemma entry_line_B_dropped:
  "normalize_entry example_lib (lit ''A'') board_now entry_line_B = Inr None"
  by (simp add: entry_line_B_def board_now_def entry_eval)

lemma entry_tie_record:
  "normalize_entry example_lib (lit ''A'') board_now entry_tie = Inr (Some record_tie)"
  by (simp add: entry_tie_def record_tie_def board_now_def entry_eval)

lemma upper_A: "str_upper (upper_nonascii example_lib) (str_strip (lit ''A'')) = lit ''A''"
  by (simp add: str_upper_def str_strip_def upper_char_def is_space_def lit_def)

lemma sort_board:
  "sort_key (\<lambda>x. (in_min x, dest x)) [record_padded, record_last_stop, record_tie] =
     [record_tie, record_last_stop, record_padded]"
  by (simp add: record_tie_def record_last_stop_def record_padded_def lit_def)

lemma loop_board:
  "normalize_loop example_lib (lit ''A'') board_now
     [entry_padded, entry_last_stop, entry_no_time, entry_line_B, entry_tie] =
     Inr [record_padded, record_last_stop, record_tie]"
  by (simp add: entry_padded_record entry_last_stop_record entry_no_time_skipped
      entry_line_B_dropped entry_tie_record)

lemma normalize_board:
  "normalize_departureboards example_lib board_now board (lit ''A'') =
     Inr [record_tie, record_last_stop, record_padded]"
  by (simp add: normalize_departureboards_def upper_A board_def py_or_def loop_board sort_board
      Let_def del: sort_key_simps normalize_loop.simps)

subsection \<open>Order of the batches\<close>

lemma fetch_gtfs_rt_Some:
  "fetch_gtfs_rt E url = Some out \<Longrightarrow> \<exists>feed. out = gtfs_departures (now_ts E) feed"
  by (auto simp: fetch_gtfs_rt_def split: option.splits if_splits)




subsection \<open>Minutes until departure\<close>

text \<open>
  What holds of every batch: the minutes of a record of the JSON parser are computed from
  the instant the record carries and the one reading \<open>now\<close> of the batch, through the double
  \<^verbatim>\<open>total_seconds()\<close> returns; the minutes of a record of the binary parser are computed
  from the first arrival time of a trip of the feed and the one value \<open>now_ts\<close> of the batch,
  through the double of the true division by 60; no record has negative minutes.
\<close>

lemma minutes_of_json_records:
  assumes n: "normalize_departureboards L now payload target = Inr out" and r: "r \<in> set out"
  shows "0 \<le> in_min r \<and>
         (\<exists>t. t_utc r = Some t \<and>
              in_min r = max 0 (double_floordiv (total_seconds (t - now)) 60))"
proof -
  from normalize_departureboards_Inr [OF n] obtain deps recs where
    loop: "normalize_loop L (str_upper (upper_nonascii L) (str_strip target)) now deps = Inr recs"
    and out: "out = sort_key (\<lambda>x. (in_min x, dest x)) recs"
    by blast
  from r out have "r \<in> set recs" by simp
  from normalize_loop_set [OF loop this] obtain d where
    "normalize_entry L (str_upper (upper_nonascii L) (str_strip target)) now d = Inr (Some r)"
    by blast
  from normalize_entry_Some [OF this] obtain t where
    t: "t_utc r = Some t" "in_min r = max 0 (double_floordiv (total_seconds (t - now)) 60)"
    by blast
  then show ?thesis by simp
qed

lemma minutes_of_gtfs_records:
  assumes f: "fetch_gtfs_rt E url = Some res" and r: "r \<in> set res"
  shows "0 \<le> in_min r \<and>
         (\<exists>fd e tu a. res = gtfs_departures (now_ts E) fd \<and> e \<in> set fd \<and>
            trip_update e = Some tu \<and> first_arrival (stop_time_updates tu) = Some a \<and>
            in_min r = max 0 (int_div60 (a - now_ts E)))"
proof -
  from fetch_gtfs_rt_Some [OF f] obtain fd where fd: "res = gtfs_departures (now_ts E) fd"
    by blast
  from r fd have "r \<in> set (gtfs_departures (now_ts E) fd)" by simp
  from set_gtfs_departures [OF this] obtain e where
    e: "e \<in> set fd" "entity_departure (now_ts E) e = Some r"
    by blast
  from entity_departure_Some [OF e(2)] obtain tu a where
    tu: "trip_update e = Some tu" "first_arrival (stop_time_updates tu) = Some a"
      "in_min r = max 0 (int_div60 (a - now_ts E))"
    by blast
  then have "0 \<le> in_min r" by simp
  then show ?thesis using fd e(1) tu by blast
qed

text \<open>
  Where the double departs from the exact quotient: an instant 570 years after \<open>now\<close> and
  one microsecond before a full minute, and the largest arrival time a feed can carry.
\<close>

lemma minutes_far_json:
  "double_floordiv (total_seconds 17987443199999999) 60 = 299790720"
  "17987443199999999 div (60 * 1000000) = (299790719::int)"
  by (simp_all add: double_eval)

lemma minutes_far_gtfs:
  "int_div60 (2 ^ 63 - 1) = 153722867280912928"
  "(2 ^ 63 - 1) div 60 = (153722867280912930::int)"
  by (simp_all add: int_div60_def double_eval)

lemma fetch_gtfs_rt_hosts:
  "fetch_gtfs_rt utc_host mock_url =
     Some [\<lparr>line = lit ''X'', dest = lit ''X'', in_min = 2, t_utc = None\<rparr>]"
  "fetch_gtfs_rt prague_host mock_url =
     Some [\<lparr>line = lit ''X'', dest = lit ''X'', in_min = 62, t_utc = None\<rparr>]"
  by (simp_all add: fetch_gtfs_rt_def mock_url_def gtfs_content_def startswith_def str_lower_def
      utc_host_def prague_host_def feed_in_two_minutes_def trip_in_two_minutes_def
      gtfs_departures_def
      entity_departure_def now_ts_def int_div60_values lit_def Let_def)

text \<open>
  C4. The claim has the minutes of a record be the whole minutes from now to the time of
  the record, never negative. The binary parser does not measure from now on a host whose
  zone is not UTC: \<^verbatim>\<open>int(datetime.datetime.utcnow().timestamp())\<close> reads the UTC time of day as
  a local time, so \<open>now_ts\<close> is off by the offset of the zone. At 09:43:20 UTC an arrival 120
  seconds ahead is 2 minutes away; the parser gives 2 on a host in UTC and 62 on a host in
  Prague.
\<close>

theorem gtfs_minutes_on_prague_host:
  "utc_clock_us prague_host = 1893491000000000
   \<and> utc_clock_us utc_host = 1893491000000000
   \<and> feed_in_two_minutes = [\<lparr>trip_update = Some trip_in_two_minutes\<rparr>]
   \<and> first_arrival (stop_time_updates trip_in_two_minutes) = Some (1893491000 + 120)
   \<and> now_ts utc_host = 1893491000
   \<and> now_ts prague_host = 1893491000 - 3600
   \<and> fetch_gtfs_rt utc_host mock_url =
       Some [\<lparr>line = lit ''X'', dest = lit ''X'', in_min = 2, t_utc = None\<rparr>]
   \<and> fetch_gtfs_rt prague_host mock_url =
       Some [\<lparr>line = lit ''X'', dest = lit ''X'', in_min = 62, t_utc = None\<rparr>]"
  by (simp add: fetch_gtfs_rt_hosts now_ts_values)
    (simp add: prague_host_def utc_host_def feed_in_two_minutes_def trip_in_two_minutes_def)

subsection \<open>The line filter\<close>

lemma get_all_keys: "get dep k = Inr v \<Longrightarrow> \<exists>w. get dep k' = Inr w"
  by (cases dep) (simp_all add: get_def)

lemma normalize_entry_other_line:
  assumes r0: "get dep (lit ''route'') = Inr r0"
    and sn: "get (py_or r0 (JObj [])) (lit ''short_name'') = Inr sn"
    and ne: "str_upper (upper_nonascii L) (str_strip (py_str L (py_or sn (JStr [])))) \<noteq> ml"
  shows "normalize_entry L ml now dep = Inr None"
proof -
  obtain t0 where t0: "get dep (lit ''trip'') = Inr t0"
    using get_all_keys [OF r0] by blast
  obtain l0 where l0: "get dep (lit ''last_stop'') = Inr l0"
    using get_all_keys [OF r0] by blast
  obtain d0 where d0: "get dep (lit ''departure_timestamp'') = Inr d0"
    using get_all_keys [OF r0] by blast
  show ?thesis
    using ne by (simp add: normalize_entry_def r0 t0 l0 d0 sn Let_def)
qed

lemma normalize_entry_line:
  assumes "normalize_entry L ml now dep = Inr (Some r)"
  shows "\<exists>r0 sn. get dep (lit ''route'') = Inr r0 \<and>
           get (py_or r0 (JObj [])) (lit ''short_name'') = Inr sn \<and>
           str_upper (upper_nonascii L) (str_strip (py_str L (py_or sn (JStr [])))) = ml"
  using assms
  by (auto simp: normalize_entry_def and_then_eq_Inr Let_def split: if_splits)

text \<open>
  C5, as amended. The comparison is between the short name and the target line after
  \<^verbatim>\<open>.strip().upper()\<close> on both sides. An entry whose route short-name, read as the code
  reads it (\<^verbatim>\<open>None\<close> or a missing key counting as the empty text), so trimmed and upper-cased
  differs from the trimmed and upper-cased target line is dropped without an error, and the
  batch is the one the parser gives without that entry. Every record of a batch has the
  trimmed, upper-cased target as its line, and comes from an entry whose trimmed,
  upper-cased short name is equal to it.
\<close>

theorem other_lines_dropped:
  "(\<forall>r0 sn. get dep (lit ''route'') = Inr r0 \<and>
       get (py_or r0 (JObj [])) (lit ''short_name'') = Inr sn \<and>
       str_upper (upper_nonascii L) (str_strip (py_str L (py_or sn (JStr [])))) \<noteq> ml \<longrightarrow>
       normalize_entry L ml now dep = Inr None)
   \<and> (normalize_entry L ml now dep = Inr None \<longrightarrow>
        normalize_loop L ml now (xs @ dep # ys) = normalize_loop L ml now (xs @ ys))
   \<and> (\<forall>r. normalize_entry L ml now dep = Inr (Some r) \<longrightarrow>
        (\<exists>r0 sn. get dep (lit ''route'') = Inr r0 \<and>
           get (py_or r0 (JObj [])) (lit ''short_name'') = Inr sn \<and>
           str_upper (upper_nonascii L) (str_strip (py_str L (py_or sn (JStr [])))) = ml))
   \<and> (normalize_departureboards L now payload target = Inr out \<longrightarrow>
        (\<forall>r \<in> set out. line r = str_upper (upper_nonascii L) (str_strip target)))"
proof -
  have a: "\<forall>r0 sn. get dep (lit ''route'') = Inr r0 \<and>
       get (py_or r0 (JObj [])) (lit ''short_name'') = Inr sn \<and>
       str_upper (upper_nonascii L) (str_strip (py_str L (py_or sn (JStr [])))) \<noteq> ml \<longrightarrow>
       normalize_entry L ml now dep = Inr None"
    using normalize_entry_other_line by blast
  have b: "normalize_entry L ml now dep = Inr None \<longrightarrow>
        normalize_loop L ml now (xs @ dep # ys) = normalize_loop L ml now (xs @ ys)"
    using normalize_loop_skip by blast
  have c: "\<forall>r. normalize_entry L ml now dep = Inr (Some r) \<longrightarrow>
        (\<exists>r0 sn. get dep (lit ''route'') = Inr r0 \<and>
           get (py_or r0 (JObj [])) (lit ''short_name'') = Inr sn \<and>
           str_upper (upper_nonascii L) (str_strip (py_str L (py_or sn (JStr [])))) = ml)"
    using normalize_entry_line by blast
  have d: "normalize_departureboards L now payload target = Inr out \<longrightarrow>
        (\<forall>r \<in> set out. line r = str_upper (upper_nonascii L) (str_strip target))"
  proof (intro impI ballI)
    fix r
    assume n: "normalize_departureboards L now payload target = Inr out" and r: "r \<in> set out"
    from normalize_departureboards_Inr [OF n] obtain deps recs where
      loop: "normalize_loop L (str_upper (upper_nonascii L) (str_strip target)) now deps = Inr recs"
      and out: "out = sort_key (\<lambda>x. (in_min x, dest x)) recs"
      by blast
    from r out have "r \<in> set recs" by simp
    from normalize_loop_set [OF loop this] obtain e where
      "normalize_entry L (str_upper (upper_nonascii L) (str_strip target)) now e = Inr (Some r)"
      by blast
    from normalize_entry_Some [OF this]
    show "line r = str_upper (upper_nonascii L) (str_strip target)"
      by blast
  qed
  from a b c d show ?thesis by blast
qed

lemma short_name_line_B:
  "get entry_line_B (lit ''route'') = Inr (JObj [(lit ''short_name'', JStr (lit ''B''))])"
  "get (py_or (JObj [(lit ''short_name'', JStr (lit ''B''))]) (JObj [])) (lit ''short_name'')
     = Inr (JStr (lit ''B''))"
  "str_upper (upper_nonascii example_lib)
     (str_strip (py_str example_lib (py_or (JStr (lit ''B'')) (JStr [])))) = lit ''B''"
  by (simp_all add: entry_line_B_def py_or_def py_str_def str_upper_def str_strip_def
      upper_char_def is_space_def lit_def)

theorem other_lines_dropped_witness:
  "normalize_entry example_lib (lit ''A'') board_now entry_line_B = Inr None
   \<and> normalize_loop example_lib (lit ''A'') board_now
        ([entry_padded, entry_last_stop, entry_no_time] @ entry_line_B # [entry_tie]) =
      normalize_loop example_lib (lit ''A'') board_now
        ([entry_padded, entry_last_stop, entry_no_time] @ [entry_tie])
   \<and> normalize_departureboards example_lib board_now board (lit ''a '') =
        Inr [record_tie, record_last_stop, record_padded]
   \<and> list_all (\<lambda>r. line r = lit ''A'') [record_tie, record_last_stop, record_padded]"
proof -
  have ne: "lit ''B'' \<noteq> lit ''A''"
    by simp
  have up: "str_upper (upper_nonascii example_lib) (str_strip (lit ''a '')) = lit ''A''"
    by (simp add: str_upper_def str_strip_def upper_char_def is_space_def lit_def)
  have nb: "normalize_departureboards example_lib board_now board (lit ''a '') =
        Inr [record_tie, record_last_stop, record_padded]"
    using normalize_board by (simp add: normalize_departureboards_def up upper_A)
  show ?thesis
    using other_lines_dropped [of entry_line_B example_lib "lit ''A''" board_now
        "[entry_padded, entry_last_stop, entry_no_time]" "[entry_tie]" board "lit ''a ''"
        "[record_tie, record_last_stop, record_padded]"]
      short_name_line_B ne nb up
    by (simp add: list_all_iff)
qed

text \<open>
  C5 as stated fails on an entry whose short name carries blanks: upper-cased, \<open> a \<close> differs
  from the target \<open>A\<close>, and the entry is kept, because the code also trims.
\<close>

theorem padded_short_name_is_kept:
  "str_upper (upper_nonascii example_lib) (lit '' a '')
     \<noteq> str_upper (upper_nonascii example_lib) (lit ''A'')
   \<and> normalize_entry example_lib (lit ''A'') board_now entry_padded = Inr (Some record_padded)
   \<and> normalize_departureboards example_lib board_now board (lit ''A'') =
        Inr [record_tie, record_last_stop, record_padded]"
  by (simp add: entry_padded_record normalize_board)
    (simp add: str_upper_def upper_char_def lit_def)

subsection \<open>Timestamps of an entry\<close>

lemma replace_Z_append: "replace_Z (s @ t) = replace_Z s @ replace_Z t"
  by (simp add: replace_Z_def)

lemma replace_Z_suffix:
  "replace_Z (lit ''Z'') = lit ''+00:00''" "replace_Z (lit ''+00:00'') = lit ''+00:00''"
  by (simp_all add: replace_Z_def lit_def)

lemma parse_iso_Z: "parse_iso L (JStr (s @ lit ''Z'')) = parse_iso L (JStr (s @ lit ''+00:00''))"
  by (simp add: parse_iso_def replace_Z_append replace_Z_suffix)

lemma parse_iso_JStr:
  "parse_iso L (JStr t) =
     (if t = [] then Inr None
      else case fromisoformat L (replace_Z t) of
        None \<Rightarrow> Inr None
      | Some d \<Rightarrow>
          (case utcoffset d of
             None \<Rightarrow> Inr (Some (wall_us d))
           | Some off \<Rightarrow>
               (if off = 0 then Inr (Some (wall_us d))
                else if wall_us d - off < datetime_min_us \<or> datetime_max_us < wall_us d - off
                then Inl OverflowError
                else Inr (Some (wall_us d - off)))))"
  by (simp add: parse_iso_def astimezone_utc_def split: option.splits)

lemma parse_iso_falsy: "\<not> truthy v \<Longrightarrow> parse_iso L v = Inr None"
  by (simp add: parse_iso_def)

lemma entry_timestamp_eq:
  assumes "get ts (lit ''predicted'') = Inr p" and "parse_iso L p = Inr predicted"
    and "get ts (lit ''scheduled'') = Inr s" and "parse_iso L s = Inr scheduled"
  shows "entry_timestamp L ts =
           Inr (case predicted of Some t \<Rightarrow> Some t | None \<Rightarrow> scheduled)"
  using assms by (simp add: entry_timestamp_def)

lemma normalize_entry_no_time:
  assumes r0: "get dep (lit ''route'') = Inr r0"
    and sn: "get (py_or r0 (JObj [])) (lit ''short_name'') = Inr sn"
    and t0: "get dep (lit ''trip'') = Inr t0"
    and l0: "get dep (lit ''last_stop'') = Inr l0"
    and dv: "dest_value (py_or t0 (JObj [])) (py_or l0 (JObj [])) = Inr d"
    and d0: "get dep (lit ''departure_timestamp'') = Inr d0"
    and ts: "entry_timestamp L (py_or d0 (JObj [])) = Inr None"
  shows "normalize_entry L ml now dep = Inr None"
  by (simp add: normalize_entry_def r0 sn t0 l0 dv d0 ts Let_def minutes_until_def)

text \<open>
  What holds of the timestamps: a text ending in \<open>Z\<close> is read as the same text ending in
  \<open>+00:00\<close>; a text \<^verbatim>\<open>fromisoformat\<close> reads without an offset, or with the offset zero,
  denotes its wall-clock reading in UTC, and one with another offset that reading less the
  offset; a text \<^verbatim>\<open>fromisoformat\<close> rejects is absent, not an error, as is an empty or
  missing field; where neither field raises, the instant used is the parsed predicted field
  when there is one, else the parsed scheduled field; an entry whose fields can be read and
  of which neither time parses is skipped, and the batch is the one without it; an entry on
  which the parser raises leaves no batch at all.
\<close>

lemma timestamp_facts:
  "parse_iso L (JStr (s @ lit ''Z'')) = parse_iso L (JStr (s @ lit ''+00:00''))
   \<and> (\<forall>d. t \<noteq> [] \<and> fromisoformat L (replace_Z t) = Some d \<and>
           (utcoffset d = None \<or> utcoffset d = Some 0) \<longrightarrow>
         parse_iso L (JStr t) = Inr (Some (wall_us d)))
   \<and> (\<forall>d off. t \<noteq> [] \<and> fromisoformat L (replace_Z t) = Some d \<and>
           utcoffset d = Some off \<and> off \<noteq> 0 \<and>
           datetime_min_us \<le> wall_us d - off \<and> wall_us d - off \<le> datetime_max_us \<longrightarrow>
         parse_iso L (JStr t) = Inr (Some (wall_us d - off)))
   \<and> (\<forall>d off. t \<noteq> [] \<and> fromisoformat L (replace_Z t) = Some d \<and>
           utcoffset d = Some off \<and> off \<noteq> 0 \<and>
           (wall_us d - off < datetime_min_us \<or> datetime_max_us < wall_us d - off) \<longrightarrow>
         parse_iso L (JStr t) = Inl OverflowError)
   \<and> (fromisoformat L (replace_Z t) = None \<longrightarrow> parse_iso L (JStr t) = Inr None)
   \<and> parse_iso L JNull = Inr None
   \<and> parse_iso L (JStr []) = Inr None
   \<and> (\<forall>p predicted sc scheduled.
         get ts (lit ''predicted'') = Inr p \<and> parse_iso L p = Inr predicted \<and>
         get ts (lit ''scheduled'') = Inr sc \<and> parse_iso L sc = Inr scheduled \<longrightarrow>
         entry_timestamp L ts =
           Inr (case predicted of Some u \<Rightarrow> Some u | None \<Rightarrow> scheduled))
   \<and> (\<forall>p sc e. get ts (lit ''predicted'') = Inr p \<and> get ts (lit ''scheduled'') = Inr sc \<and>
         (parse_iso L p = Inl e \<or> (\<exists>x. parse_iso L p = Inr x) \<and> parse_iso L sc = Inl e) \<longrightarrow>
         entry_timestamp L ts = Inl e)
   \<and> (\<forall>r. normalize_entry L ml now dep = Inr (Some r) \<longrightarrow>
         (\<exists>d0 u. get dep (lit ''departure_timestamp'') = Inr d0 \<and>
            entry_timestamp L (py_or d0 (JObj [])) = Inr (Some u) \<and> t_utc r = Some u))
   \<and> (\<forall>r0 sn t0 l0 d d0.
         get dep (lit ''route'') = Inr r0 \<and>
         get (py_or r0 (JObj [])) (lit ''short_name'') = Inr sn \<and>
         get dep (lit ''trip'') = Inr t0 \<and> get dep (lit ''last_stop'') = Inr l0 \<and>
         dest_value (py_or t0 (JObj [])) (py_or l0 (JObj [])) = Inr d \<and>
         get dep (lit ''departure_timestamp'') = Inr d0 \<and>
         entry_timestamp L (py_or d0 (JObj [])) = Inr None \<longrightarrow>
         normalize_entry L ml now dep = Inr None)
   \<and> (normalize_entry L ml now dep = Inr None \<longrightarrow>
         normalize_loop L ml now (xs @ dep # ys) = normalize_loop L ml now (xs @ ys))
   \<and> ((\<exists>e. normalize_entry L ml now dep = Inl e) \<longrightarrow>
         (\<exists>e'. normalize_loop L ml now (xs @ dep # ys) = Inl e'))"
proof -
  have a: "parse_iso L (JStr (s @ lit ''Z'')) = parse_iso L (JStr (s @ lit ''+00:00''))"
    by (rule parse_iso_Z)
  have b: "\<forall>d. t \<noteq> [] \<and> fromisoformat L (replace_Z t) = Some d \<and>
           (utcoffset d = None \<or> utcoffset d = Some 0) \<longrightarrow>
         parse_iso L (JStr t) = Inr (Some (wall_us d))"
    by (auto simp: parse_iso_JStr)
  have b1: "\<forall>d off. t \<noteq> [] \<and> fromisoformat L (replace_Z t) = Some d \<and>
           utcoffset d = Some off \<and> off \<noteq> 0 \<and>
           datetime_min_us \<le> wall_us d - off \<and> wall_us d - off \<le> datetime_max_us \<longrightarrow>
         parse_iso L (JStr t) = Inr (Some (wall_us d - off))"
    by (auto simp: parse_iso_JStr)
  have b2: "\<forall>d off. t \<noteq> [] \<and> fromisoformat L (replace_Z t) = Some d \<and>
           utcoffset d = Some off \<and> off \<noteq> 0 \<and>
           (wall_us d - off < datetime_min_us \<or> datetime_max_us < wall_us d - off) \<longrightarrow>
         parse_iso L (JStr t) = Inl OverflowError"
    by (auto simp: parse_iso_JStr)
  have c: "fromisoformat L (replace_Z t) = None \<longrightarrow> parse_iso L (JStr t) = Inr None"
    by (simp add: parse_iso_JStr)
  have d: "parse_iso L JNull = Inr None" "parse_iso L (JStr []) = Inr None"
    by (simp_all add: parse_iso_falsy)
  have f: "\<forall>p predicted sc scheduled.
         get ts (lit ''predicted'') = Inr p \<and> parse_iso L p = Inr predicted \<and>
         get ts (lit ''scheduled'') = Inr sc \<and> parse_iso L sc = Inr scheduled \<longrightarrow>
         entry_timestamp L ts =
           Inr (case predicted of Some u \<Rightarrow> Some u | None \<Rightarrow> scheduled)"
    using entry_timestamp_eq by blast
  have f1: "\<forall>p sc e. get ts (lit ''predicted'') = Inr p \<and> get ts (lit ''scheduled'') = Inr sc \<and>
         (parse_iso L p = Inl e \<or> (\<exists>x. parse_iso L p = Inr x) \<and> parse_iso L sc = Inl e) \<longrightarrow>
         entry_timestamp L ts = Inl e"
    by (auto simp: entry_timestamp_def)
  have g: "\<forall>r. normalize_entry L ml now dep = Inr (Some r) \<longrightarrow>
         (\<exists>d0 u. get dep (lit ''departure_timestamp'') = Inr d0 \<and>
            entry_timestamp L (py_or d0 (JObj [])) = Inr (Some u) \<and> t_utc r = Some u)"
    using normalize_entry_Some by blast
  have h: "\<forall>r0 sn t0 l0 d d0.
         get dep (lit ''route'') = Inr r0 \<and>
         get (py_or r0 (JObj [])) (lit ''short_name'') = Inr sn \<and>
         get dep (lit ''trip'') = Inr t0 \<and> get dep (lit ''last_stop'') = Inr l0 \<and>
         dest_value (py_or t0 (JObj [])) (py_or l0 (JObj [])) = Inr d \<and>
         get dep (lit ''departure_timestamp'') = Inr d0 \<and>
         entry_timestamp L (py_or d0 (JObj [])) = Inr None \<longrightarrow>
         normalize_entry L ml now dep = Inr None"
    using normalize_entry_no_time by blast
  have i: "normalize_entry L ml now dep = Inr None \<longrightarrow>
         normalize_loop L ml now (xs @ dep # ys) = normalize_loop L ml now (xs @ ys)"
    using normalize_loop_skip by blast
  have j: "(\<exists>e. normalize_entry L ml now dep = Inl e) \<longrightarrow>
         (\<exists>e'. normalize_loop L ml now (xs @ dep # ys) = Inl e')"
    using normalize_loop_raises by blast
  from a b b1 b2 c d f f1 g h i j show ?thesis by blast
qed

lemma parse_iso_examples:
  "parse_iso example_lib (JStr (lit ''2030-01-01T10:00:00Z'')) = Inr (Some 1893492000000000)"
  "parse_iso example_lib (JStr (lit ''2030-01-01T11:00:00+01:00'')) = Inr (Some 1893492000000000)"
  "parse_iso example_lib (JStr (lit ''2030-01-01T10:05:00'')) = Inr (Some 1893492300000000)"
  "parse_iso example_lib (JStr (lit ''soon'')) = Inr None"
  "parse_iso example_lib (JStr (lit ''later'')) = Inr None"
  "parse_iso example_lib (JStr (lit ''0001-01-01T00:00:00+01:00'')) = Inl OverflowError"
  by (simp_all add: parse_iso_JStr example_lib_def replace_Z_def lit_def datetime_min_us_def
      datetime_max_us_def)

lemma entry_timestamp_examples:
  "entry_timestamp example_lib
     (JObj [(lit ''predicted'', JStr (lit ''soon'')),
            (lit ''scheduled'', JStr (lit ''2030-01-01T10:00:00Z''))]) = Inr (Some 1893492000000000)"
  "entry_timestamp example_lib
     (JObj [(lit ''predicted'', JStr (lit ''2030-01-01T10:05:00'')),
            (lit ''scheduled'', JStr (lit ''2030-01-01T10:00:00Z''))]) = Inr (Some 1893492300000000)"
  "entry_timestamp example_lib
     (JObj [(lit ''predicted'', JStr (lit ''2030-01-01T10:05:00'')),
            (lit ''scheduled'', JStr (lit ''0001-01-01T00:00:00+01:00''))]) = Inl OverflowError"
  by (simp_all add: entry_timestamp_def parse_iso_examples)

lemma entry_edge_raises:
  "normalize_entry example_lib (lit ''A'') board_now entry_edge = Inl OverflowError"
  by (simp add: entry_edge_def board_now_def entry_eval datetime_min_us_def
      datetime_max_us_def)

lemma normalize_board_edge:
  "normalize_departureboards example_lib board_now board_edge (lit ''A'') = Inl OverflowError"
  by (simp add: normalize_departureboards_def upper_A board_edge_def py_or_def
      entry_last_stop_record entry_edge_raises Let_def)

text \<open>
  C6. The claim has an entry use its predicted time when that parses, and a timestamp text
  that cannot be used count as absent without failing the batch. \<^verbatim>\<open>_parse_iso\<close> catches the
  ValueError of \<^verbatim>\<open>fromisoformat\<close> only, and the scheduled field is parsed even when the
  predicted one has parsed. On the board below the first entry gives a record by itself; the
  second has a predicted time that parses and a scheduled text \<^verbatim>\<open>fromisoformat\<close> accepts but
  whose instant in UTC lies before the year 1: \<^verbatim>\<open>astimezone\<close> raises OverflowError, the parser
  raises, the fetch returns nothing, and the pass of the poller keeps the old snapshot: both
  records are lost.
\<close>

theorem batch_lost_on_out_of_range_timestamp:
  "parse_iso example_lib (JStr (lit ''2030-01-01T10:05:00'')) = Inr (Some 1893492300000000)
   \<and> parse_iso example_lib (JStr (lit ''2030-01-01T11:00:00+01:00'')) = Inr (Some 1893492000000000)
   \<and> parse_iso example_lib (JStr (lit ''0001-01-01T00:00:00+01:00'')) = Inl OverflowError
   \<and> normalize_entry example_lib (lit ''A'') board_now entry_last_stop = Inr (Some record_last_stop)
   \<and> normalize_entry example_lib (lit ''A'') board_now entry_edge = Inl OverflowError
   \<and> normalize_departureboards example_lib board_now board_edge (lit ''A'') = Inl OverflowError
   \<and> fetch_golemio_departures example_lib example_settings (now_parse cycle_edge)
        (answer cycle_edge) = None
   \<and> poller_cycle example_lib example_settings cycle_edge store_one = store_one"
  by (simp add: parse_iso_examples entry_last_stop_record entry_edge_raises normalize_board_edge
      poller_cycle_def fetch_golemio_departures_def cycle_edge_def example_settings_def
      METRO_LINE_def)

end
